theory Spec2Isabelle
  imports Complex_Main "HOL-Library.Word"
begin

section \<open>Machine integers and clock times\<close>

text \<open>
  The mixer is C code on GLib types.  \<open>gint\<close> is a 32-bit and \<open>gint64\<close> a 64-bit
  two's complement integer, \<open>GstClockTime\<close> is \<open>guint64\<close>.  They are words here:
  \<open>+\<close>, \<open>-\<close> and \<open>*\<close> wrap around, \<open>sint\<close> reads a word as signed, \<open>unat\<close> as
  unsigned, and the signed comparisons of the source are \<open><s\<close> and \<open>\<le>s\<close>.
  A \<open>gdouble\<close> is only stored and handed on by the code modelled here, never computed
  with; it is a \<open>real\<close>.
\<close>

type_synonym gint = "32 word"
type_synonym guint = "32 word"
type_synonym gint64 = "64 word"
type_synonym guint64 = "64 word"
type_synonym GstClockTime = "64 word"
type_synonym GstClockTimeDiff = "64 word"
type_synonym gdouble = real

definition GST_CLOCK_TIME_NONE :: GstClockTime where
  "GST_CLOCK_TIME_NONE = - 1"

definition GST_CLOCK_TIME_IS_VALID :: "GstClockTime \<Rightarrow> bool" where
  "GST_CLOCK_TIME_IS_VALID t = (t \<noteq> GST_CLOCK_TIME_NONE)"

definition GST_SECOND :: guint64 where
  "GST_SECOND = 1000000000"

definition G_MAXINT64 :: gint64 where
  "G_MAXINT64 = 9223372036854775807"

definition G_MAXUINT64 :: guint64 where
  "G_MAXUINT64 = - 1"

text \<open>
  GLib's \<open>MAX (a, b)\<close> is \<open>((a) > (b)) ? (a) : (b)\<close>, here on two \<open>gint\<close>.  The name
  \<open>MAX\<close> alone is taken by HOL's syntax for maxima.
\<close>

definition MAX_gint :: "gint \<Rightarrow> gint \<Rightarrow> gint" where
  "MAX_gint a b = (if b <s a then a else b)"

text \<open>
  \<open>gst_util_uint64_scale_int (val, num, denom)\<close> belongs to the GStreamer core library,
  not to the mixer.  Its documented behaviour: \<open>val * num / denom\<close> rounded down, computed
  without intermediate overflow; \<open>G_MAXUINT64\<close> when the result does not fit, and also
  (after a warning) when \<open>denom\<close> is not positive or \<open>num\<close> is negative.
\<close>

definition gst_util_uint64_scale_int :: "guint64 \<Rightarrow> gint \<Rightarrow> gint \<Rightarrow> guint64" where
  "gst_util_uint64_scale_int val num denom =
     (if \<not> 0 <s denom then G_MAXUINT64
      else if num <s 0 then G_MAXUINT64
      else let r = (uint val * sint num) div sint denom
           in if r < 2 ^ 64 then word_of_int r else G_MAXUINT64)"

section \<open>Buffers, segments and what leaves the source pad\<close>

text \<open>
  Of an input buffer the mixer's control flow reads the timestamp and the duration; the
  pixel data only feeds the blend functions, which live in other files.
\<close>

record GstBuffer =
  buf_timestamp :: GstClockTime
  buf_duration :: GstClockTime

datatype GstFormat =
  GST_FORMAT_UNDEFINED | GST_FORMAT_DEFAULT | GST_FORMAT_BYTES | GST_FORMAT_TIME
  | GST_FORMAT_BUFFERS | GST_FORMAT_PERCENT

record GstSegment =
  seg_rate :: gdouble
  seg_abs_rate :: gdouble
  seg_applied_rate :: gdouble
  seg_format :: GstFormat
  seg_start :: gint64
  seg_stop :: gint64
  seg_time :: gint64
  seg_accum :: gint64
  seg_last_stop :: gint64
  seg_duration :: gint64

text \<open>
  The segment arithmetic is GStreamer core's (\<open>gstsegment.c\<close>), and it divides by a
  floating-point rate.  The mixer only calls it, so the three functions it calls are
  parameters of the model.
\<close>

record gst_core =
  gst_segment_init :: "GstSegment \<Rightarrow> GstFormat \<Rightarrow> GstSegment"
  gst_segment_set_newsegment ::
    "GstSegment \<Rightarrow> bool \<Rightarrow> gdouble \<Rightarrow> GstFormat \<Rightarrow> gint64 \<Rightarrow> gint64 \<Rightarrow> gint64 \<Rightarrow> GstSegment"
  gst_segment_to_running_time :: "GstSegment \<Rightarrow> GstFormat \<Rightarrow> gint64 \<Rightarrow> gint64"

datatype GstFlowReturn =
  GST_FLOW_OK | GST_FLOW_NOT_NEGOTIATED | GST_FLOW_WRONG_STATE | GST_FLOW_ERROR
  | GST_FLOW_UNEXPECTED | GST_FLOW_NOT_LINKED

datatype GstVideoMixerBackground =
  VIDEO_MIXER_BACKGROUND_CHECKER | VIDEO_MIXER_BACKGROUND_BLACK
  | VIDEO_MIXER_BACKGROUND_WHITE | VIDEO_MIXER_BACKGROUND_TRANSPARENT

datatype GstVideoFormat =
  GST_VIDEO_FORMAT_UNKNOWN | GST_VIDEO_FORMAT_I420 | GST_VIDEO_FORMAT_YV12
  | GST_VIDEO_FORMAT_YUY2 | GST_VIDEO_FORMAT_UYVY | GST_VIDEO_FORMAT_AYUV
  | GST_VIDEO_FORMAT_RGBx | GST_VIDEO_FORMAT_BGRx | GST_VIDEO_FORMAT_xRGB
  | GST_VIDEO_FORMAT_xBGR | GST_VIDEO_FORMAT_RGBA | GST_VIDEO_FORMAT_BGRA
  | GST_VIDEO_FORMAT_ARGB | GST_VIDEO_FORMAT_ABGR | GST_VIDEO_FORMAT_RGB
  | GST_VIDEO_FORMAT_BGR | GST_VIDEO_FORMAT_Y41B | GST_VIDEO_FORMAT_Y42B
  | GST_VIDEO_FORMAT_YVYU | GST_VIDEO_FORMAT_Y444 | GST_VIDEO_FORMAT_v210
  | GST_VIDEO_FORMAT_v216 | GST_VIDEO_FORMAT_NV12 | GST_VIDEO_FORMAT_NV21
  | GST_VIDEO_FORMAT_GRAY8 | GST_VIDEO_FORMAT_GRAY16_BE | GST_VIDEO_FORMAT_GRAY16_LE
  | GST_VIDEO_FORMAT_v308 | GST_VIDEO_FORMAT_Y800 | GST_VIDEO_FORMAT_Y16
  | GST_VIDEO_FORMAT_RGB16 | GST_VIDEO_FORMAT_BGR16 | GST_VIDEO_FORMAT_RGB15
  | GST_VIDEO_FORMAT_BGR15 | GST_VIDEO_FORMAT_UYVP | GST_VIDEO_FORMAT_A420
  | GST_VIDEO_FORMAT_RGB8_PALETTED | GST_VIDEO_FORMAT_YUV9 | GST_VIDEO_FORMAT_YVU9
  | GST_VIDEO_FORMAT_IYU1 | GST_VIDEO_FORMAT_ARGB64 | GST_VIDEO_FORMAT_AYUV64
  | GST_VIDEO_FORMAT_r210

text \<open>
  Negotiated caps are fixed video caps.  Of them the mixer reads the pixel format
  (\<open>GST_VIDEO_FORMAT_UNKNOWN\<close> when the caps name none that the video library knows) and
  writes the size and the pixel aspect ratio.
\<close>

record GstCaps =
  caps_format :: GstVideoFormat
  caps_width :: gint
  caps_height :: gint
  caps_par_n :: gint
  caps_par_d :: gint

text \<open>
  Everything the mixer hands to its source pad, in order: events, new caps (\<open>None\<close> for
  a \<open>NULL\<close> caps pointer), and output frames.  An output frame is its timestamp, its
  duration, the background it was filled with and the ports blended into it, bottom first;
  the pixel arithmetic of the fill and blend functions is in other files of the plugin.
\<close>

datatype src_item =
  EvFlushStop
  | EvEOS
  | EvNewSegment bool gdouble gdouble GstFormat gint64 gint64 gint64
  | SetCaps "GstCaps option"
  | PushBuffer GstClockTime GstClockTime GstVideoMixerBackground "nat list"

text \<open>
  A call of \<open>gst_videomixer_collected\<close> either returns a flow value or stops the process
  (a failed \<open>g_assert\<close>, a \<open>NULL\<close> master).
\<close>

datatype cycle_outcome = Returned GstFlowReturn | Aborted

section \<open>Ports and mixer state\<close>

datatype GstVideoScaleMethod =
  GST_VIDEO_SCALE_NEAREST | GST_VIDEO_SCALE_BILINEAR | GST_VIDEO_SCALE_4TAP

text \<open>
  A port is a \<open>GstVideoMixerPad\<close> together with its \<open>GstVideoMixerCollect\<close> record
  (\<open>mixpad->mixcol\<close>; the two point at each other and are created and freed together).
  \<open>pad_buffer\<close> is \<open>mixcol->buffer\<close>, the frame the mixer holds; \<open>pad_segment\<close> is
  \<open>mixcol->collect.segment\<close>; \<open>pad_collect_buffer\<close> is the frame waiting in the
  transport layer (GstCollectPads keeps at most one per pad):
  \<open>gst_collect_pads_peek\<close> returns it, \<open>gst_collect_pads_pop\<close> takes it away.
  \<open>pad_caps\<close> is what \<open>gst_pad_get_negotiated_caps\<close> returns for the pad.
  The structures are declared in \<open>videomixer.h\<close> and \<open>videomixerpad.h\<close>; the field
  types here follow the way \<open>videomixer.c\<close> uses the fields.  The counter \<open>queued\<close>
  is signed (it is tested with \<open><= 0\<close> and logged as a \<open>gint64\<close>); the native size
  \<open>in_width\<close>, \<open>in_height\<close> is read from caps into a \<open>gint\<close> and folded with
  \<open>MAX\<close> into a \<open>gint\<close>; the fields of a fresh pad are zero.
\<close>

record GstVideoMixerPad =
  pad_queued :: gint64
  pad_in_width :: gint
  pad_in_height :: gint
  pad_fps_n :: gint
  pad_fps_d :: gint
  pad_par_n :: gint
  pad_par_d :: gint
  pad_xpos :: gint
  pad_ypos :: gint
  pad_width :: guint
  pad_height :: guint
  pad_zorder :: guint
  pad_alpha :: gdouble
  pad_buffer :: "GstBuffer option"
  pad_segment :: GstSegment
  pad_collect_buffer :: "GstBuffer option"
  pad_caps :: "GstCaps option"

text \<open>
  The mixer refers to its ports by pointer, in two lists (\<open>mix->sinkpads\<close>, kept in
  z-order, and \<open>mix->collect->data\<close>) and in \<open>mix->master\<close>.  The model keeps the
  ports in a store indexed by address; the lists hold addresses and the master is an
  address or \<open>NULL\<close> (\<open>None\<close>).  \<open>mix_blend\<close> says whether the function pointer
  \<open>mix->blend\<close> is set (\<open>overlay\<close>, \<open>fill_checker\<close> and \<open>fill_color\<close> are set and
  cleared with it), \<open>mix_tmp_buf\<close> is the size of the scratch buffer when one is
  allocated, and \<open>mix_srcpad\<close> is the trace of what has been handed to \<open>mix->srcpad\<close>.
  The two locks are left out: the model runs one call at a time.
\<close>

record GstVideoMixer =
  mix_pads :: "nat \<Rightarrow> GstVideoMixerPad"
  mix_sinkpads :: "nat list"
  mix_collect_data :: "nat list"
  mix_numpads :: gint
  mix_next_sinkpad :: gint
  mix_master :: "nat option"
  mix_in_width :: gint
  mix_in_height :: gint
  mix_out_width :: gint
  mix_out_height :: gint
  mix_fps_n :: gint
  mix_fps_d :: gint
  mix_par_n :: gint
  mix_par_d :: gint
  mix_setcaps :: bool
  mix_sendseg :: bool
  mix_segment_position :: gint64
  mix_segment :: GstSegment
  mix_proportion :: gdouble
  mix_earliest_time :: GstClockTime
  mix_fmt :: GstVideoFormat
  mix_last_ts :: GstClockTime
  mix_last_duration :: GstClockTime
  mix_flush_stop_pending :: bool
  mix_tmp_buf :: "gint option"
  mix_method :: GstVideoScaleMethod
  mix_background :: GstVideoMixerBackground
  mix_blend :: bool
  mix_srcpad :: "src_item list"

section \<open>Quality of service\<close>

definition gst_videomixer_update_qos ::
  "GstVideoMixer \<Rightarrow> gdouble \<Rightarrow> GstClockTimeDiff \<Rightarrow> GstClockTime \<Rightarrow> GstVideoMixer" where
  "gst_videomixer_update_qos mix proportion diff timestamp =
     (let mix = mix\<lparr>mix_proportion := proportion\<rparr>
      in if timestamp \<noteq> GST_CLOCK_TIME_NONE then
           if 0 <s diff then
             mix\<lparr>mix_earliest_time :=
                   timestamp + 2 * diff
                   + gst_util_uint64_scale_int GST_SECOND (mix_fps_d mix) (mix_fps_n mix)\<rparr>
           else mix\<lparr>mix_earliest_time := timestamp + diff\<rparr>
         else mix\<lparr>mix_earliest_time := GST_CLOCK_TIME_NONE\<rparr>)"

definition gst_videomixer_reset_qos :: "GstVideoMixer \<Rightarrow> GstVideoMixer" where
  "gst_videomixer_reset_qos mix = gst_videomixer_update_qos mix 0.5 0 GST_CLOCK_TIME_NONE"

definition gst_videomixer_read_qos :: "GstVideoMixer \<Rightarrow> gdouble \<times> GstClockTime" where
  "gst_videomixer_read_qos mix = (mix_proportion mix, mix_earliest_time mix)"

text \<open>
  \<open>TRUE\<close> when the frame is to be processed, \<open>FALSE\<close> when it can be dropped.
\<close>

definition gst_videomixer_do_qos :: "gst_core \<Rightarrow> GstVideoMixer \<Rightarrow> GstClockTime \<Rightarrow> bool" where
  "gst_videomixer_do_qos core mix timestamp =
     (if \<not> GST_CLOCK_TIME_IS_VALID timestamp then True
      else let (proportion, earliest_time) = gst_videomixer_read_qos mix
           in if \<not> GST_CLOCK_TIME_IS_VALID earliest_time then True
              else let qostime =
                         gst_segment_to_running_time core (mix_segment mix) GST_FORMAT_TIME timestamp
                   in if qostime \<noteq> GST_CLOCK_TIME_NONE \<and> qostime \<le> earliest_time then False
                      else True)"

section \<open>Geometry negotiation\<close>

text \<open>The local variables of \<open>gst_videomixer_set_master_geometry\<close>.\<close>

record geometry =
  g_width :: gint
  g_height :: gint
  g_fps_n :: gint
  g_fps_d :: gint
  g_par_n :: gint
  g_par_d :: gint
  g_master :: "nat option"

definition geometry_init :: geometry where
  "geometry_init =
     \<lparr>g_width = 0, g_height = 0, g_fps_n = 0, g_fps_d = 0, g_par_n = 0, g_par_d = 0,
      g_master = None\<rparr>"

text \<open>
  The loop's test \<open>(gint64) fps_n * mixpad->fps_d < (gint64) mixpad->fps_n * fps_d\<close>: both
  products are taken in 64 bits.
\<close>

definition fps_less :: "gint \<Rightarrow> gint \<Rightarrow> gint \<Rightarrow> gint \<Rightarrow> bool" where
  "fps_less fps_n fps_d pad_n pad_d =
     ((scast fps_n :: gint64) * scast pad_d <s scast pad_n * scast fps_d)"

definition geometry_step :: "(nat \<Rightarrow> GstVideoMixerPad) \<Rightarrow> geometry \<Rightarrow> nat \<Rightarrow> geometry" where
  "geometry_step pads g walk =
     (let mixpad = pads walk;
          g1 = g\<lparr>g_width := MAX_gint (g_width g) (pad_in_width mixpad),
                 g_height := MAX_gint (g_height g) (pad_in_height mixpad)\<rparr>
      in if (g_fps_n g1 = 0 \<and> g_fps_d g1 = 0)
            \<or> fps_less (g_fps_n g1) (g_fps_d g1) (pad_fps_n mixpad) (pad_fps_d mixpad)
         then g1\<lparr>g_fps_n := pad_fps_n mixpad, g_fps_d := pad_fps_d mixpad,
                  g_par_n := pad_par_n mixpad, g_par_d := pad_par_d mixpad,
                  g_master := Some walk\<rparr>
         else g1)"

fun geometry_walk :: "(nat \<Rightarrow> GstVideoMixerPad) \<Rightarrow> nat list \<Rightarrow> geometry \<Rightarrow> geometry" where
  "geometry_walk pads [] g = g"
| "geometry_walk pads (walk # rest) g = geometry_walk pads rest (geometry_step pads g walk)"

definition gst_videomixer_set_master_geometry :: "GstVideoMixer \<Rightarrow> GstVideoMixer" where
  "gst_videomixer_set_master_geometry mix =
     (let g = geometry_walk (mix_pads mix) (mix_sinkpads mix) geometry_init
      in if mix_master mix \<noteq> g_master g \<or> mix_in_width mix \<noteq> g_width g
            \<or> mix_in_height mix \<noteq> g_height g \<or> mix_fps_n mix \<noteq> g_fps_n g
            \<or> mix_fps_d mix \<noteq> g_fps_d g \<or> mix_par_n mix \<noteq> g_par_n g
            \<or> mix_par_d mix \<noteq> g_par_d g
         then (gst_videomixer_reset_qos (mix\<lparr>mix_setcaps := True, mix_sendseg := True\<rparr>))
                \<lparr>mix_master := g_master g, mix_in_width := g_width g,
                 mix_in_height := g_height g, mix_fps_n := g_fps_n g,
                 mix_fps_d := g_fps_d g, mix_par_n := g_par_n g, mix_par_d := g_par_d g\<rparr>
         else mix)"

text \<open>
  \<open>gst_videomixer_release_pad\<close>: an unknown pad only draws a warning.  Otherwise the pad
  leaves \<open>mix->sinkpads\<close> (\<open>g_slist_remove\<close> drops the first occurrence), its held frame
  is released, it leaves the collect-pads list, and geometry and master are recomputed.
\<close>

definition gst_videomixer_collect_free :: "GstVideoMixerPad \<Rightarrow> GstVideoMixerPad" where
  "gst_videomixer_collect_free mixcol =
     (if pad_buffer mixcol \<noteq> None then mixcol\<lparr>pad_buffer := None\<rparr> else mixcol)"

definition gst_videomixer_release_pad :: "GstVideoMixer \<Rightarrow> nat \<Rightarrow> GstVideoMixer" where
  "gst_videomixer_release_pad mix pad =
     (if pad \<notin> set (mix_sinkpads mix) then mix
      else let mix = mix\<lparr>mix_sinkpads := remove1 pad (mix_sinkpads mix)\<rparr>;
               mix = mix\<lparr>mix_pads :=
                            (mix_pads mix)(pad := gst_videomixer_collect_free (mix_pads mix pad))\<rparr>;
               mix = mix\<lparr>mix_collect_data := remove1 pad (mix_collect_data mix)\<rparr>;
               mix = gst_videomixer_set_master_geometry mix
           in mix\<lparr>mix_numpads := mix_numpads mix - 1\<rparr>)"

section \<open>Filling the queues\<close>

text \<open>
  The first half of the loop body of \<open>gst_videomixer_fill_queues\<close>: a port without a held
  frame peeks at the transport layer, and a frame found there is held and its duration
  added to the counter.
\<close>

definition fill_queues_fetch :: "GstVideoMixerPad \<Rightarrow> GstVideoMixerPad" where
  "fill_queues_fetch mixpad =
     (if pad_buffer mixpad = None then
        (case pad_collect_buffer mixpad of
           Some buf \<Rightarrow>
             let mixpad = mixpad\<lparr>pad_buffer := Some buf\<rparr>;
                 duration = buf_duration buf;
                 duration =
                   (if \<not> GST_CLOCK_TIME_IS_VALID duration then
                      if pad_fps_n mixpad = 0 then GST_CLOCK_TIME_NONE
                      else gst_util_uint64_scale_int GST_SECOND (pad_fps_d mixpad)
                             (pad_fps_n mixpad)
                    else duration)
             in if GST_CLOCK_TIME_IS_VALID duration
                then mixpad\<lparr>pad_queued := pad_queued mixpad + duration\<rparr>
                else if pad_queued mixpad = 0
                then mixpad\<lparr>pad_queued := GST_CLOCK_TIME_NONE\<rparr>
                else mixpad
         | None \<Rightarrow> mixpad)
      else mixpad)"

text \<open>The second half: the master announces a pending segment.\<close>

definition fill_queues_sendseg :: "gst_core \<Rightarrow> GstVideoMixer \<Rightarrow> nat \<Rightarrow> GstVideoMixer" where
  "fill_queues_sendseg core mix walk =
     (if mix_sendseg mix \<and> Some walk = mix_master mix then
        let segment = pad_segment (mix_pads mix walk);
            start = seg_accum segment;
            stop = (if seg_stop segment \<noteq> - 1 \<and> seg_start segment \<noteq> - 1
                    then start + (seg_stop segment - seg_start segment) else - 1)
        in mix\<lparr>mix_segment :=
                   gst_segment_set_newsegment core (mix_segment mix) False (seg_rate segment)
                     (seg_format segment) start stop (start + mix_segment_position mix),
                 mix_srcpad :=
                   mix_srcpad mix
                   @ [EvNewSegment False (seg_rate segment) 1 (seg_format segment) start stop
                        (start + mix_segment_position mix)],
                 mix_sendseg := False\<rparr>
      else mix)"

text \<open>A port holding a frame with a valid counter: "got a buffer somewhere so we're not eos".\<close>

definition pad_has_data :: "GstVideoMixerPad \<Rightarrow> bool" where
  "pad_has_data mixpad =
     (pad_buffer mixpad \<noteq> None \<and> GST_CLOCK_TIME_IS_VALID (pad_queued mixpad))"

fun fill_queues_walk ::
  "gst_core \<Rightarrow> nat list \<Rightarrow> bool \<Rightarrow> GstVideoMixer \<Rightarrow> bool \<times> GstVideoMixer" where
  "fill_queues_walk core [] eos mix = (eos, mix)"
| "fill_queues_walk core (walk # rest) eos mix =
     (let mixpad = fill_queues_fetch (mix_pads mix walk);
          mix = mix\<lparr>mix_pads := (mix_pads mix)(walk := mixpad)\<rparr>;
          mix = fill_queues_sendseg core mix walk;
          eos = (if pad_has_data (mix_pads mix walk) then False else eos)
      in fill_queues_walk core rest eos mix)"

definition gst_videomixer_fill_queues :: "gst_core \<Rightarrow> GstVideoMixer \<Rightarrow> bool \<times> GstVideoMixer" where
  "gst_videomixer_fill_queues core mix = fill_queues_walk core (mix_collect_data mix) True mix"

section \<open>Scaling method\<close>

text \<open>
  \<open>gst_video_scale_transform\<close> first settles the method, then dispatches on the format to
  one family of \<open>vs_image_scale_*\<close> functions (in \<open>vs_image.c\<close>); a format outside the
  switch is an error.  The model returns the flow result and the scaler chosen.
\<close>

datatype vs_family =
  VS_RGBA | VS_AYUV64 | VS_RGB | VS_YUYV | VS_UYVY | VS_Y | VS_Y16 | VS_Y_PLANES
  | VS_RGB565 | VS_RGB555

definition scale_method :: "GstVideoMixer \<Rightarrow> GstVideoMixerPad \<Rightarrow> GstVideoScaleMethod" where
  "scale_method mix pad =
     (let method = mix_method mix;
          method = (if pad_in_width pad = 1 then GST_VIDEO_SCALE_NEAREST else method);
          method = (if method = GST_VIDEO_SCALE_4TAP
                       \<and> (pad_in_width pad <s 4 \<or> pad_in_height pad <s 4)
                    then GST_VIDEO_SCALE_BILINEAR else method)
      in method)"

fun scale_family :: "GstVideoFormat \<Rightarrow> vs_family option" where
  "scale_family GST_VIDEO_FORMAT_RGBx = Some VS_RGBA"
| "scale_family GST_VIDEO_FORMAT_xRGB = Some VS_RGBA"
| "scale_family GST_VIDEO_FORMAT_BGRx = Some VS_RGBA"
| "scale_family GST_VIDEO_FORMAT_xBGR = Some VS_RGBA"
| "scale_family GST_VIDEO_FORMAT_RGBA = Some VS_RGBA"
| "scale_family GST_VIDEO_FORMAT_ARGB = Some VS_RGBA"
| "scale_family GST_VIDEO_FORMAT_BGRA = Some VS_RGBA"
| "scale_family GST_VIDEO_FORMAT_ABGR = Some VS_RGBA"
| "scale_family GST_VIDEO_FORMAT_AYUV = Some VS_RGBA"
| "scale_family GST_VIDEO_FORMAT_ARGB64 = Some VS_AYUV64"
| "scale_family GST_VIDEO_FORMAT_AYUV64 = Some VS_AYUV64"
| "scale_family GST_VIDEO_FORMAT_RGB = Some VS_RGB"
| "scale_family GST_VIDEO_FORMAT_BGR = Some VS_RGB"
| "scale_family GST_VIDEO_FORMAT_v308 = Some VS_RGB"
| "scale_family GST_VIDEO_FORMAT_YUY2 = Some VS_YUYV"
| "scale_family GST_VIDEO_FORMAT_YVYU = Some VS_YUYV"
| "scale_family GST_VIDEO_FORMAT_UYVY = Some VS_UYVY"
| "scale_family GST_VIDEO_FORMAT_Y800 = Some VS_Y"
| "scale_family GST_VIDEO_FORMAT_GRAY8 = Some VS_Y"
| "scale_family GST_VIDEO_FORMAT_GRAY16_LE = Some VS_Y16"
| "scale_family GST_VIDEO_FORMAT_GRAY16_BE = Some VS_Y16"
| "scale_family GST_VIDEO_FORMAT_Y16 = Some VS_Y16"
| "scale_family GST_VIDEO_FORMAT_I420 = Some VS_Y_PLANES"
| "scale_family GST_VIDEO_FORMAT_YV12 = Some VS_Y_PLANES"
| "scale_family GST_VIDEO_FORMAT_Y444 = Some VS_Y_PLANES"
| "scale_family GST_VIDEO_FORMAT_Y42B = Some VS_Y_PLANES"
| "scale_family GST_VIDEO_FORMAT_Y41B = Some VS_Y_PLANES"
| "scale_family GST_VIDEO_FORMAT_RGB16 = Some VS_RGB565"
| "scale_family GST_VIDEO_FORMAT_RGB15 = Some VS_RGB555"
| "scale_family _ = None"

definition gst_video_scale_transform ::
  "GstVideoMixer \<Rightarrow> GstVideoMixerPad \<Rightarrow> GstFlowReturn \<times> (vs_family \<times> GstVideoScaleMethod) option" where
  "gst_video_scale_transform mix pad =
     (let method = scale_method mix pad
      in case scale_family (mix_fmt mix) of
           Some family \<Rightarrow> (GST_FLOW_OK, Some (family, method))
         | None \<Rightarrow> (GST_FLOW_ERROR, None))"

section \<open>Blending and queue accounting\<close>

text \<open>
  \<open>gst_videomixer_blend_buffers\<close> blends every port of \<open>mix->sinkpads\<close> that holds a
  frame, in list order; the result here is the list of the ports blended.  Syncing the
  controlled pad properties and the pixel work of scaling and blending are outside.
\<close>

definition gst_videomixer_blend_buffers :: "GstVideoMixer \<Rightarrow> nat list" where
  "gst_videomixer_blend_buffers mix =
     filter (\<lambda>pad. pad_buffer (mix_pads mix pad) \<noteq> None) (mix_sinkpads mix)"

definition update_queues_interval :: "GstVideoMixer \<Rightarrow> nat \<Rightarrow> gint64" where
  "update_queues_interval mix master =
     (let interval = pad_queued (mix_pads mix master)
      in if interval \<le>s 0 then
           if mix_fps_n mix = 0 then G_MAXINT64
           else gst_util_uint64_scale_int GST_SECOND (mix_fps_d mix) (mix_fps_n mix)
         else interval)"

definition update_queues_pad :: "gint64 \<Rightarrow> GstVideoMixerPad \<Rightarrow> GstVideoMixerPad" where
  "update_queues_pad interval pad =
     (if pad_buffer pad \<noteq> None then
        let pad = pad\<lparr>pad_queued := pad_queued pad - interval\<rparr>
        in if pad_queued pad \<le>s 0
           then pad\<lparr>pad_collect_buffer := None, pad_buffer := None\<rparr>
           else pad
      else pad)"

fun update_queues_walk ::
  "gint64 \<Rightarrow> nat list \<Rightarrow> (nat \<Rightarrow> GstVideoMixerPad) \<Rightarrow> (nat \<Rightarrow> GstVideoMixerPad)" where
  "update_queues_walk interval [] pads = pads"
| "update_queues_walk interval (walk # rest) pads =
     update_queues_walk interval rest (pads(walk := update_queues_pad interval (pads walk)))"

text \<open>
  \<open>mix->master->queued\<close> is read through the master pointer: with no master the C code
  dereferences \<open>NULL\<close>, which is \<open>None\<close> here.
\<close>

definition gst_videomixer_update_queues :: "GstVideoMixer \<Rightarrow> GstVideoMixer option" where
  "gst_videomixer_update_queues mix =
     (case mix_master mix of
        None \<Rightarrow> None
      | Some master \<Rightarrow>
          Some (mix\<lparr>mix_pads :=
                       update_queues_walk (update_queues_interval mix master) (mix_sinkpads mix)
                         (mix_pads mix)\<rparr>))"

section \<open>The aggregation cycle\<close>

definition collected_flush_stop :: "GstVideoMixer \<Rightarrow> GstVideoMixer" where
  "collected_flush_stop mix =
     (if mix_flush_stop_pending mix
      then mix\<lparr>mix_flush_stop_pending := False, mix_srcpad := mix_srcpad mix @ [EvFlushStop]\<rparr>
      else mix)"

text \<open>
  \<open>gst_video_format_parse_caps\<close> of the video library, asked for the format only: on
  fixed video caps it stores the format the caps name and succeeds when that format is
  known.
\<close>

definition gst_video_format_parse_caps :: "GstCaps \<Rightarrow> bool \<times> GstVideoFormat" where
  "gst_video_format_parse_caps caps =
     (caps_format caps \<noteq> GST_VIDEO_FORMAT_UNKNOWN, caps_format caps)"

text \<open>
  \<open>gst_videomixer_setcaps\<close>, the setcaps function of the source pad.  It clears the four
  function pointers, allocates the scratch buffer anew, stores the format of the caps and,
  for the formats of its switch, sets the function pointers again.  \<open>blend_format\<close> is
  that switch.
\<close>

fun blend_format :: "GstVideoFormat \<Rightarrow> bool" where
  "blend_format GST_VIDEO_FORMAT_AYUV = True"
| "blend_format GST_VIDEO_FORMAT_ARGB = True"
| "blend_format GST_VIDEO_FORMAT_BGRA = True"
| "blend_format GST_VIDEO_FORMAT_ABGR = True"
| "blend_format GST_VIDEO_FORMAT_RGBA = True"
| "blend_format GST_VIDEO_FORMAT_Y444 = True"
| "blend_format GST_VIDEO_FORMAT_Y42B = True"
| "blend_format GST_VIDEO_FORMAT_YUY2 = True"
| "blend_format GST_VIDEO_FORMAT_UYVY = True"
| "blend_format GST_VIDEO_FORMAT_YVYU = True"
| "blend_format GST_VIDEO_FORMAT_I420 = True"
| "blend_format GST_VIDEO_FORMAT_YV12 = True"
| "blend_format GST_VIDEO_FORMAT_Y41B = True"
| "blend_format GST_VIDEO_FORMAT_RGB = True"
| "blend_format GST_VIDEO_FORMAT_BGR = True"
| "blend_format GST_VIDEO_FORMAT_xRGB = True"
| "blend_format GST_VIDEO_FORMAT_xBGR = True"
| "blend_format GST_VIDEO_FORMAT_RGBx = True"
| "blend_format GST_VIDEO_FORMAT_BGRx = True"
| "blend_format _ = False"

definition gst_videomixer_setcaps :: "GstVideoMixer \<Rightarrow> GstCaps \<Rightarrow> bool \<times> GstVideoMixer" where
  "gst_videomixer_setcaps mixer caps =
     (let mixer = mixer\<lparr>mix_blend := False\<rparr>;
          mixer = mixer\<lparr>mix_tmp_buf := Some (mix_out_width mixer * 8 * 4)\<rparr>;
          (parsed, fmt) = gst_video_format_parse_caps caps;
          mixer = mixer\<lparr>mix_fmt := fmt\<rparr>
      in if \<not> parsed then (False, mixer)
         else if blend_format (mix_fmt mixer) then (True, mixer\<lparr>mix_blend := True\<rparr>)
         else (False, mixer))"

text \<open>
  \<open>gst_pad_set_caps\<close> on the source pad: the core library runs the pad's setcaps
  function on caps that are not \<open>NULL\<close>.  The mixer does not look at the result.
\<close>

definition gst_pad_set_caps :: "GstVideoMixer \<Rightarrow> GstCaps option \<Rightarrow> GstVideoMixer" where
  "gst_pad_set_caps mix newcaps =
     (let mix = mix\<lparr>mix_srcpad := mix_srcpad mix @ [SetCaps newcaps]\<rparr>
      in case newcaps of
           Some caps \<Rightarrow> snd (gst_videomixer_setcaps mix caps)
         | None \<Rightarrow> mix)"

text \<open>
  "If geometry has changed we need to set new caps on the buffer": the new caps are the
  master's negotiated caps with the mixer's size and pixel aspect ratio written in.
\<close>

definition collected_caps :: "GstVideoMixer \<Rightarrow> GstVideoMixer" where
  "collected_caps mix =
     (if mix_in_width mix \<noteq> mix_out_width mix \<or> mix_in_height mix \<noteq> mix_out_height mix
         \<or> mix_setcaps mix
      then
        let negotiated = (case mix_master mix of
                            Some master \<Rightarrow> pad_caps (mix_pads mix master)
                          | None \<Rightarrow> None);
            newcaps = map_option
                        (\<lambda>caps. caps\<lparr>caps_width := mix_in_width mix,
                                      caps_height := mix_in_height mix,
                                      caps_par_n := mix_par_n mix,
                                      caps_par_d := mix_par_d mix\<rparr>)
                        negotiated;
            mix = mix\<lparr>mix_out_width := mix_in_width mix, mix_out_height := mix_in_height mix,
                       mix_setcaps := False\<rparr>
        in gst_pad_set_caps mix newcaps
      else mix)"

text \<open>
  "Get timestamp and duration": the pair handed on, and the mixer with \<open>last_ts\<close> and
  \<open>last_duration\<close> as the branch leaves them.
\<close>

definition collected_timestamp ::
  "gst_core \<Rightarrow> GstVideoMixer \<Rightarrow> nat \<Rightarrow> GstClockTime \<times> GstClockTime \<times> GstVideoMixer" where
  "collected_timestamp core mix master =
     (case pad_buffer (mix_pads mix master) of
        Some buffer \<Rightarrow>
          let seg = pad_segment (mix_pads mix master);
              in_ts = buf_timestamp buffer;
              timestamp = gst_segment_to_running_time core seg GST_FORMAT_TIME in_ts;
              duration = buf_duration buffer
          in (timestamp, duration, mix\<lparr>mix_last_ts := timestamp, mix_last_duration := duration\<rparr>)
      | None \<Rightarrow> (mix_last_ts mix, mix_last_duration mix, mix))"

definition collected_advance :: "GstClockTime \<Rightarrow> GstVideoMixer \<Rightarrow> GstVideoMixer" where
  "collected_advance duration mix =
     (if GST_CLOCK_TIME_IS_VALID duration
      then mix\<lparr>mix_last_ts := mix_last_ts mix + duration\<rparr>
      else mix)"

text \<open>
  \<open>gst_videomixer_collected\<close>.  \<open>alloc_ret\<close> is what
  \<open>gst_pad_alloc_buffer_and_set_caps\<close> answers and \<open>push_ret\<close> what \<open>gst_pad_push\<close>
  answers, should the cycle get that far.  The result is the outcome and the mixer as the
  call leaves it; the outcome is \<open>Aborted\<close> where the C code stops the process, at
  \<open>g_assert (mix->blend != NULL)\<close> or at \<open>mix->master->mixcol\<close> with a \<open>NULL\<close> master.
\<close>

definition gst_videomixer_collected ::
  "gst_core \<Rightarrow> GstFlowReturn \<Rightarrow> GstFlowReturn \<Rightarrow> GstVideoMixer
   \<Rightarrow> cycle_outcome \<times> GstVideoMixer" where
  "gst_videomixer_collected core alloc_ret push_ret mix =
     (if mix_in_width mix = 0 then (Returned GST_FLOW_NOT_NEGOTIATED, mix)
      else
        let mix = collected_flush_stop mix;
            (eos, mix) = gst_videomixer_fill_queues core mix
        in if eos then
             (Returned GST_FLOW_WRONG_STATE, mix\<lparr>mix_srcpad := mix_srcpad mix @ [EvEOS]\<rparr>)
           else
             let mix = collected_caps mix
             in case mix_master mix of
                  None \<Rightarrow> (Aborted, mix)
                | Some master \<Rightarrow>
                    let (timestamp, duration, mix) = collected_timestamp core mix master;
                        mix = collected_advance duration mix
                    in if \<not> gst_videomixer_do_qos core mix timestamp then
                         (case gst_videomixer_update_queues mix of
                            Some mix \<Rightarrow> (Returned GST_FLOW_OK, mix)
                          | None \<Rightarrow> (Aborted, mix))
                       else if \<not> mix_blend mix then (Aborted, mix)
                       else if alloc_ret \<noteq> GST_FLOW_OK then (Returned alloc_ret, mix)
                       else
                         let outbuf =
                               PushBuffer timestamp duration (mix_background mix)
                                 (gst_videomixer_blend_buffers mix)
                         in case gst_videomixer_update_queues mix of
                              Some mix \<Rightarrow>
                                (Returned push_ret,
                                 mix\<lparr>mix_srcpad := mix_srcpad mix @ [outbuf]\<rparr>)
                            | None \<Rightarrow> (Aborted, mix))"

section \<open>Events on a sink pad\<close>

datatype GstEventType = GST_EVENT_FLUSH_STOP | GST_EVENT_NEWSEGMENT | GST_EVENT_OTHER

text \<open>
  What \<open>gst_videomixer_sink_event\<close> does to the mixer before it hands the event on to
  GstCollectPads.
\<close>

definition gst_videomixer_sink_event :: "GstVideoMixer \<Rightarrow> nat \<Rightarrow> GstEventType \<Rightarrow> GstVideoMixer" where
  "gst_videomixer_sink_event videomixer vpad event =
     (case event of
        GST_EVENT_FLUSH_STOP \<Rightarrow>
          let videomixer =
                gst_videomixer_reset_qos
                  (videomixer\<lparr>mix_sendseg := True, mix_flush_stop_pending := False\<rparr>)
          in videomixer\<lparr>mix_pads :=
                (mix_pads videomixer)
                  (vpad := (mix_pads videomixer vpad)\<lparr>pad_buffer := None, pad_queued := 0\<rparr>)\<rparr>
      | GST_EVENT_NEWSEGMENT \<Rightarrow>
          if mix_master videomixer = None \<or> Some vpad = mix_master videomixer
          then gst_videomixer_reset_qos (videomixer\<lparr>mix_sendseg := True\<rparr>)
          else videomixer
      | GST_EVENT_OTHER \<Rightarrow> videomixer)"

section \<open>Reset and state changes\<close>

definition DEFAULT_PROP_METHOD :: GstVideoScaleMethod where
  "DEFAULT_PROP_METHOD = GST_VIDEO_SCALE_BILINEAR"

definition DEFAULT_BACKGROUND :: GstVideoMixerBackground where
  "DEFAULT_BACKGROUND = VIDEO_MIXER_BACKGROUND_CHECKER"

fun collect_free_walk ::
  "nat list \<Rightarrow> (nat \<Rightarrow> GstVideoMixerPad) \<Rightarrow> (nat \<Rightarrow> GstVideoMixerPad)" where
  "collect_free_walk [] pads = pads"
| "collect_free_walk (walk # rest) pads =
     collect_free_walk rest (pads(walk := gst_videomixer_collect_free (pads walk)))"

definition gst_videomixer_reset :: "gst_core \<Rightarrow> GstVideoMixer \<Rightarrow> GstVideoMixer" where
  "gst_videomixer_reset core mix =
     (let mix = mix\<lparr>mix_in_width := 0, mix_in_height := 0, mix_out_width := 0,
                     mix_out_height := 0, mix_fps_n := 0, mix_fps_d := 0, mix_par_n := 1,
                     mix_par_d := 1, mix_setcaps := False, mix_sendseg := False,
                     mix_segment_position := 0,
                     mix_segment := gst_segment_init core (mix_segment mix) GST_FORMAT_TIME\<rparr>;
          mix = gst_videomixer_reset_qos mix;
          mix = mix\<lparr>mix_fmt := GST_VIDEO_FORMAT_UNKNOWN, mix_last_ts := 0,
                     mix_last_duration := - 1\<rparr>;
          mix = mix\<lparr>mix_pads := collect_free_walk (mix_collect_data mix) (mix_pads mix)\<rparr>
      in mix\<lparr>mix_next_sinkpad := 0, mix_flush_stop_pending := False, mix_tmp_buf := None,
              mix_method := DEFAULT_PROP_METHOD\<rparr>)"

datatype GstStateChange =
  GST_STATE_CHANGE_NULL_TO_READY | GST_STATE_CHANGE_READY_TO_PAUSED
  | GST_STATE_CHANGE_PAUSED_TO_PLAYING | GST_STATE_CHANGE_PLAYING_TO_PAUSED
  | GST_STATE_CHANGE_PAUSED_TO_READY | GST_STATE_CHANGE_READY_TO_NULL

text \<open>
  \<open>gst_videomixer_change_state\<close>: going from paused to ready stops the collect pads
  (\<open>gst_collect_pads_stop\<close> of the core library drops the frames still waiting there)
  and, after the parent class has run, resets the mixer.
\<close>

definition gst_collect_pads_stop :: "GstVideoMixer \<Rightarrow> GstVideoMixer" where
  "gst_collect_pads_stop mix =
     mix\<lparr>mix_pads :=
           (\<lambda>pad. if pad \<in> set (mix_collect_data mix)
                   then (mix_pads mix pad)\<lparr>pad_collect_buffer := None\<rparr>
                   else mix_pads mix pad)\<rparr>"

definition gst_videomixer_change_state ::
  "gst_core \<Rightarrow> GstVideoMixer \<Rightarrow> GstStateChange \<Rightarrow> GstVideoMixer" where
  "gst_videomixer_change_state core mix transition =
     (case transition of
        GST_STATE_CHANGE_PAUSED_TO_READY \<Rightarrow> gst_videomixer_reset core (gst_collect_pads_stop mix)
      | _ \<Rightarrow> mix)"

text \<open>
  \<open>gst_videomixer_init\<close>: GObject hands over zeroed memory; the mixer gets an empty
  collect-pads object and the default background, and is reset.
\<close>

definition zeroed_segment :: GstSegment where
  "zeroed_segment =
     \<lparr>seg_rate = 0, seg_abs_rate = 0, seg_applied_rate = 0, seg_format = GST_FORMAT_UNDEFINED,
      seg_start = 0, seg_stop = 0, seg_time = 0, seg_accum = 0, seg_last_stop = 0,
      seg_duration = 0\<rparr>"

definition zeroed_pad :: GstVideoMixerPad where
  "zeroed_pad =
     \<lparr>pad_queued = 0, pad_in_width = 0, pad_in_height = 0, pad_fps_n = 0, pad_fps_d = 0,
      pad_par_n = 0, pad_par_d = 0, pad_xpos = 0, pad_ypos = 0, pad_width = 0,
      pad_height = 0, pad_zorder = 0, pad_alpha = 0, pad_buffer = None,
      pad_segment = zeroed_segment, pad_collect_buffer = None, pad_caps = None\<rparr>"

definition zeroed_mixer :: GstVideoMixer where
  "zeroed_mixer =
     \<lparr>mix_pads = (\<lambda>_. zeroed_pad), mix_sinkpads = [], mix_collect_data = [],
      mix_numpads = 0, mix_next_sinkpad = 0, mix_master = None, mix_in_width = 0,
      mix_in_height = 0, mix_out_width = 0, mix_out_height = 0, mix_fps_n = 0,
      mix_fps_d = 0, mix_par_n = 0, mix_par_d = 0, mix_setcaps = False,
      mix_sendseg = False, mix_segment_position = 0, mix_segment = zeroed_segment,
      mix_proportion = 0, mix_earliest_time = 0, mix_fmt = GST_VIDEO_FORMAT_UNKNOWN,
      mix_last_ts = 0, mix_last_duration = 0, mix_flush_stop_pending = False,
      mix_tmp_buf = None, mix_method = GST_VIDEO_SCALE_NEAREST,
      mix_background = VIDEO_MIXER_BACKGROUND_CHECKER, mix_blend = False, mix_srcpad = []\<rparr>"

definition gst_videomixer_init :: "gst_core \<Rightarrow> GstVideoMixer" where
  "gst_videomixer_init core =
     gst_videomixer_reset core (zeroed_mixer\<lparr>mix_background := DEFAULT_BACKGROUND\<rparr>)"

section \<open>Vocabulary of the properties\<close>

text \<open>
  Frame rates are compared as the code compares them, by cross multiplication on the
  signed values.  A port that has not seen caps yet has the rate 0/0; a rate announced in
  caps is a GStreamer fraction, whose denominator is positive.
\<close>

definition rate_unset :: "GstVideoMixerPad \<Rightarrow> bool" where
  "rate_unset p = (pad_fps_n p = 0 \<and> pad_fps_d p = 0)"

definition rate_below :: "GstVideoMixerPad \<Rightarrow> GstVideoMixerPad \<Rightarrow> bool" where
  "rate_below p q =
     (sint (pad_fps_n p) * sint (pad_fps_d q) < sint (pad_fps_n q) * sint (pad_fps_d p))"

definition rate_wellformed :: "GstVideoMixerPad \<Rightarrow> bool" where
  "rate_wellformed p = (0 <s pad_fps_d p \<or> rate_unset p)"

text \<open>
  The loop invariant of the master selection: of the ports \<open>seen\<close> so far, \<open>m\<close> is the
  master, the local rate and aspect ratio are its own, every port before it is unset or
  strictly slower, and no port after it is strictly faster.
\<close>

definition master_of :: "(nat \<Rightarrow> GstVideoMixerPad) \<Rightarrow> nat list \<Rightarrow> geometry \<Rightarrow> bool" where
  "master_of pads seen g =
     (\<exists>xs m ys. seen = xs @ m # ys \<and> g_master g = Some m
        \<and> g_fps_n g = pad_fps_n (pads m) \<and> g_fps_d g = pad_fps_d (pads m)
        \<and> g_par_n g = pad_par_n (pads m) \<and> g_par_d g = pad_par_d (pads m)
        \<and> (\<forall>x\<in>set xs. rate_unset (pads x) \<or> rate_below (pads x) (pads m))
        \<and> (\<forall>y\<in>set ys. \<not> rate_unset (pads m) \<and> \<not> rate_below (pads m) (pads y)))"

text \<open>The largest value of a dimension over the listed ports, 0 when there is none.\<close>

definition max_native ::
  "(GstVideoMixerPad \<Rightarrow> gint) \<Rightarrow> (nat \<Rightarrow> GstVideoMixerPad) \<Rightarrow> nat list \<Rightarrow> int" where
  "max_native sel pads ids =
     (if ids = [] then 0 else Max ((\<lambda>i. sint (sel (pads i))) ` set ids))"

text \<open>What a cycle has handed to the source pad: the items added to the trace.\<close>

definition emitted :: "GstVideoMixer \<Rightarrow> GstVideoMixer \<Rightarrow> src_item list" where
  "emitted mix mix' = drop (length (mix_srcpad mix)) (mix_srcpad mix')"

text \<open>
  The aggregation cycle up to its end-of-stream test: the pending flush-stop is sent and
  the queues are filled.  The result is the end-of-stream flag and the mixer as the fill
  leaves it.
\<close>

definition cycle_fill :: "gst_core \<Rightarrow> GstVideoMixer \<Rightarrow> bool \<times> GstVideoMixer" where
  "cycle_fill core mix = gst_videomixer_fill_queues core (collected_flush_stop mix)"

text \<open>Items that are neither the end-of-stream event nor an output frame.\<close>

fun quiet :: "src_item \<Rightarrow> bool" where
  "quiet EvEOS = False"
| "quiet (PushBuffer ts dur bg layers) = False"
| "quiet _ = True"

text \<open>
  A cycle that is not at end of stream goes on to derive the output timestamp and duration
  from the master \<open>master\<close> and to advance \<open>last_ts\<close>: the pair derived, and the mixer as
  it stands when the QoS decision is taken.
\<close>

definition cycle_derive ::
  "gst_core \<Rightarrow> GstVideoMixer \<Rightarrow> nat \<Rightarrow> GstClockTime \<times> GstClockTime \<times> GstVideoMixer" where
  "cycle_derive core mix master =
     (let (timestamp, duration, mixt) =
            collected_timestamp core (collected_caps (snd (cycle_fill core mix))) master
      in (timestamp, duration, collected_advance duration mixt))"

definition cycle_timestamp :: "gst_core \<Rightarrow> GstVideoMixer \<Rightarrow> nat \<Rightarrow> GstClockTime" where
  "cycle_timestamp core mix master = fst (cycle_derive core mix master)"

definition cycle_duration :: "gst_core \<Rightarrow> GstVideoMixer \<Rightarrow> nat \<Rightarrow> GstClockTime" where
  "cycle_duration core mix master = fst (snd (cycle_derive core mix master))"

definition cycle_derived :: "gst_core \<Rightarrow> GstVideoMixer \<Rightarrow> nat \<Rightarrow> GstVideoMixer" where
  "cycle_derived core mix master = snd (snd (cycle_derive core mix master))"

text \<open>Output frames among the items handed to the source pad.\<close>

fun is_frame :: "src_item \<Rightarrow> bool" where
  "is_frame (PushBuffer ts dur bg layers) = True"
| "is_frame _ = False"

text \<open>The mixer as a cycle leaves it.\<close>

definition collected_state ::
  "gst_core \<Rightarrow> GstFlowReturn \<Rightarrow> GstFlowReturn \<Rightarrow> GstVideoMixer \<Rightarrow> GstVideoMixer" where
  "collected_state core alloc_ret push_ret mix =
     snd (gst_videomixer_collected core alloc_ret push_ret mix)"

text \<open>The mixer as queue accounting leaves it (unchanged where it does not return).\<close>

definition update_queues_state :: "GstVideoMixer \<Rightarrow> GstVideoMixer" where
  "update_queues_state mix =
     (case gst_videomixer_update_queues mix of Some mix' \<Rightarrow> mix' | None \<Rightarrow> mix)"

section \<open>Example states\<close>

text \<open>
  A stand-in for the core library's segment functions, for segments played at rate 1, and
  the two ports of the sample pipeline in the element's documentation: AYUV, 100x100 at
  10 frames per second and 320x240 at 5 frames per second, on a mixer just initialised.
\<close>

definition example_core :: gst_core where
  "example_core =
     \<lparr>gst_segment_init = (\<lambda>seg fmt.
        \<lparr>seg_rate = 1, seg_abs_rate = 1, seg_applied_rate = 1, seg_format = fmt,
         seg_start = 0, seg_stop = - 1, seg_time = 0, seg_accum = 0, seg_last_stop = 0,
         seg_duration = - 1\<rparr>),
      gst_segment_set_newsegment = (\<lambda>seg update rate fmt start stop time.
        seg\<lparr>seg_rate := rate, seg_format := fmt, seg_start := start, seg_stop := stop,
            seg_time := time, seg_last_stop := start\<rparr>),
      gst_segment_to_running_time = (\<lambda>seg fmt position.
        if position = - 1 \<or> position <s seg_start seg
           \<or> (seg_stop seg \<noteq> - 1 \<and> seg_stop seg <s position)
        then - 1 else position - seg_start seg + seg_accum seg)\<rparr>"

definition example_pad :: "gint \<Rightarrow> gint \<Rightarrow> gint \<Rightarrow> gint \<Rightarrow> GstVideoMixerPad" where
  "example_pad w h n d =
     zeroed_pad\<lparr>pad_in_width := w, pad_in_height := h, pad_fps_n := n, pad_fps_d := d,
                pad_par_n := 1, pad_par_d := 1, pad_alpha := 1,
                pad_segment := gst_segment_init example_core zeroed_segment GST_FORMAT_TIME,
                pad_caps := Some \<lparr>caps_format = GST_VIDEO_FORMAT_AYUV, caps_width = w,
                                  caps_height = h, caps_par_n = 1, caps_par_d = 1\<rparr>\<rparr>"

definition example_mixer :: GstVideoMixer where
  "example_mixer =
     (gst_videomixer_init example_core)
       \<lparr>mix_pads := (\<lambda>_. zeroed_pad)(0 := example_pad 100 100 10 1, 1 := example_pad 320 240 5 1),
        mix_sinkpads := [0, 1], mix_collect_data := [0, 1], mix_numpads := 2,
        mix_next_sinkpad := 2\<rparr>"

definition example_negotiated :: GstVideoMixer where
  "example_negotiated = gst_videomixer_set_master_geometry example_mixer"

text \<open>
  The sample ports while streaming: a 100 ms frame waits on the 10 fps port and a 200 ms
  frame on the 5 fps port, both stamped 0.  \<open>example_late\<close> is the same mixer after a QoS
  report that puts the earliest acceptable timestamp at 5 s; \<open>example_second_cycle\<close> is
  the streaming mixer after one cycle, with nothing new arrived.
\<close>

definition example_frame :: "GstClockTime \<Rightarrow> GstClockTime \<Rightarrow> GstBuffer" where
  "example_frame ts dur = \<lparr>buf_timestamp = ts, buf_duration = dur\<rparr>"

definition example_streaming :: GstVideoMixer where
  "example_streaming =
     example_negotiated
       \<lparr>mix_pads :=
          (mix_pads example_negotiated)
            (0 := (mix_pads example_negotiated 0)
                    \<lparr>pad_collect_buffer := Some (example_frame 0 100000000)\<rparr>,
             1 := (mix_pads example_negotiated 1)
                    \<lparr>pad_collect_buffer := Some (example_frame 0 200000000)\<rparr>)\<rparr>"

definition example_late :: GstVideoMixer where
  "example_late = example_streaming\<lparr>mix_earliest_time := 5000000000\<rparr>"

definition example_second_cycle :: GstVideoMixer where
  "example_second_cycle = collected_state example_core GST_FLOW_OK GST_FLOW_OK example_streaming"

text \<open>
  \<open>example_holding\<close> is the streaming sample mixer of the first cycle at the point where
  queue accounting runs (both ports hold their frame); \<open>example_stalled\<close> is the same
  point of the second cycle (the master holds nothing).
\<close>

definition example_holding :: GstVideoMixer where
  "example_holding = cycle_derived example_core example_streaming 0"

definition example_stalled :: GstVideoMixer where
  "example_stalled = cycle_derived example_core example_second_cycle 0"

text \<open>
  A mixer with one port showing a still image: rate 0/1, and a frame without a duration
  waiting on the port.
\<close>

definition example_still :: GstVideoMixer where
  "example_still =
     gst_videomixer_set_master_geometry
       ((gst_videomixer_init example_core)
          \<lparr>mix_pads :=
             (\<lambda>_. zeroed_pad)
               (0 := (example_pad 320 240 0 1)
                       \<lparr>pad_collect_buffer := Some (example_frame 0 GST_CLOCK_TIME_NONE)\<rparr>),
           mix_sinkpads := [0], mix_collect_data := [0], mix_numpads := 1,
           mix_next_sinkpad := 1\<rparr>)"

text \<open>
  The late mixer after its cycle, which drops the frame, and after the QoS observation
  has been reset, with nothing new arrived.
\<close>

definition example_after_drop :: GstVideoMixer where
  "example_after_drop =
     gst_videomixer_reset_qos
       (collected_state example_core GST_FLOW_OK GST_FLOW_OK example_late)"

section \<open>Unfolding the examples\<close>

lemmas example_defs =
  example_mixer_def example_pad_def example_core_def gst_videomixer_init_def
  gst_videomixer_reset_def gst_videomixer_reset_qos_def gst_videomixer_update_qos_def
  zeroed_mixer_def zeroed_pad_def zeroed_segment_def DEFAULT_BACKGROUND_def
  DEFAULT_PROP_METHOD_def GST_CLOCK_TIME_NONE_def

section \<open>The rate comparison on integers\<close>

text \<open>
  Two \<open>gint\<close> multiplied in 64 bits never overflow, so the loop's test is the comparison
  of the exact products.
\<close>

lemma sint_gint_bounds: "- (2 ^ 31) \<le> sint (a :: gint) \<and> sint a < 2 ^ 31"
  using sint_ge [of a] sint_lt [of a] by simp

lemma gint_prod_bounds:
  fixes x y :: int
  assumes "- (2 ^ 31) \<le> x" "x < 2 ^ 31" "- (2 ^ 31) \<le> y" "y < 2 ^ 31"
  shows "- (2 ^ 63) \<le> x * y \<and> x * y < 2 ^ 63"
proof -
  have ax: "\<bar>x\<bar> \<le> 2 ^ 31" and ay: "\<bar>y\<bar> \<le> 2 ^ 31" using assms by auto
  have "\<bar>x * y\<bar> = \<bar>x\<bar> * \<bar>y\<bar>" by (simp add: abs_mult)
  also have "\<dots> \<le> 2 ^ 31 * 2 ^ 31" using ax ay by (intro mult_mono) auto
  finally have "\<bar>x * y\<bar> \<le> 2 ^ 62" by simp
  then show ?thesis by auto
qed

lemma sint_scast_mult:
  "sint ((scast (a :: gint) :: gint64) * scast (b :: gint)) = sint a * sint b"
proof -
  have sa: "sint (scast a :: gint64) = sint a" by (simp add: sint_up_scast is_up)
  have sb: "sint (scast b :: gint64) = sint b" by (simp add: sint_up_scast is_up)
  have bnd: "- (2 ^ 63) \<le> sint a * sint b \<and> sint a * sint b < 2 ^ 63"
    using gint_prod_bounds sint_gint_bounds by blast
  have "sint ((scast a :: gint64) * scast b) = signed_take_bit 63 (sint a * sint b)"
    by (simp add: sint_word_ariths sa sb)
  also have "\<dots> = sint a * sint b"
    using bnd by (simp add: signed_take_bit_int_eq_self)
  finally show ?thesis .
qed

lemma fps_less_iff:
  "fps_less n d pn pd \<longleftrightarrow> sint n * sint pd < sint pn * sint d"
  by (simp add: fps_less_def word_sless_alt sint_scast_mult)

lemma rate_lt_trans:
  fixes a d a' d' a'' d'' :: int
  assumes "a * d' < a' * d" "a' * d'' < a'' * d'" "0 < d" "0 < d'" "0 < d''"
  shows "a * d'' < a'' * d"
proof -
  have "(a * d') * d'' < (a' * d) * d''"
    using assms(1,5) by (rule mult_strict_right_mono)
  moreover have "(a' * d'') * d < (a'' * d') * d"
    using assms(2,3) by (rule mult_strict_right_mono)
  ultimately have "(a * d'') * d' < (a'' * d) * d'"
    by (simp add: mult.commute mult.left_commute)
  then show ?thesis using assms(4) by (simp add: mult_less_cancel_right)
qed

lemma rate_le_lt_trans:
  fixes a d a' d' a'' d'' :: int
  assumes "a * d' \<le> a' * d" "a' * d'' < a'' * d'" "0 < d" "0 < d'" "0 < d''"
  shows "a * d'' < a'' * d"
proof -
  have "(a * d') * d'' \<le> (a' * d) * d''"
    using assms(1,5) by (intro mult_right_mono) auto
  moreover have "(a' * d'') * d < (a'' * d') * d"
    using assms(2,3) by (rule mult_strict_right_mono)
  ultimately have "(a * d'') * d' < (a'' * d) * d'"
    by (simp add: mult.commute mult.left_commute)
  then show ?thesis using assms(4) by (simp add: mult_less_cancel_right)
qed

lemma rate_unset_sint: "rate_unset p \<Longrightarrow> sint (pad_fps_n p) = 0 \<and> sint (pad_fps_d p) = 0"
  by (simp add: rate_unset_def)

lemma rate_below_set:
  "rate_below p q \<Longrightarrow> rate_wellformed p \<Longrightarrow> 0 < sint (pad_fps_d p)"
  by (auto simp: rate_below_def rate_wellformed_def rate_unset_def word_sless_alt)

lemma rate_below_set2:
  "rate_below p q \<Longrightarrow> rate_wellformed q \<Longrightarrow> 0 < sint (pad_fps_d q)"
  by (auto simp: rate_below_def rate_wellformed_def rate_unset_def word_sless_alt)

lemma rate_below_trans:
  assumes "rate_below p q" "rate_below q r"
    and "rate_wellformed p" "rate_wellformed q" "rate_wellformed r"
  shows "rate_below p r"
proof -
  have "0 < sint (pad_fps_d p)" "0 < sint (pad_fps_d q)" "0 < sint (pad_fps_d r)"
    using assms rate_below_set rate_below_set2 by blast+
  then show ?thesis
    using assms(1,2) unfolding rate_below_def
    using rate_lt_trans [of "sint (pad_fps_n p)" "sint (pad_fps_d q)" "sint (pad_fps_n q)"
        "sint (pad_fps_d p)" "sint (pad_fps_d r)" "sint (pad_fps_n r)"]
    by blast
qed

lemma rate_not_below_trans:
  assumes "\<not> rate_below q p" "rate_below q r" "\<not> rate_unset p"
    and "rate_wellformed p" "rate_wellformed q" "rate_wellformed r"
  shows "rate_below p r"
proof -
  have "0 < sint (pad_fps_d p)"
    using assms(3,4) by (auto simp: rate_wellformed_def word_sless_alt)
  moreover have "0 < sint (pad_fps_d q)" "0 < sint (pad_fps_d r)"
    using assms rate_below_set rate_below_set2 by blast+
  moreover have "sint (pad_fps_n p) * sint (pad_fps_d q) \<le> sint (pad_fps_n q) * sint (pad_fps_d p)"
    using assms(1) by (simp add: rate_below_def)
  ultimately show ?thesis
    using assms(2) unfolding rate_below_def
    using rate_le_lt_trans [of "sint (pad_fps_n p)" "sint (pad_fps_d q)" "sint (pad_fps_n q)"
        "sint (pad_fps_d p)" "sint (pad_fps_d r)" "sint (pad_fps_n r)"]
    by blast
qed

lemma geometry_step_replace:
  assumes "(g_fps_n g = 0 \<and> g_fps_d g = 0)
           \<or> sint (g_fps_n g) * sint (pad_fps_d (pads w)) < sint (pad_fps_n (pads w)) * sint (g_fps_d g)"
  shows "g_master (geometry_step pads g w) = Some w
         \<and> g_fps_n (geometry_step pads g w) = pad_fps_n (pads w)
         \<and> g_fps_d (geometry_step pads g w) = pad_fps_d (pads w)
         \<and> g_par_n (geometry_step pads g w) = pad_par_n (pads w)
         \<and> g_par_d (geometry_step pads g w) = pad_par_d (pads w)"
  using assms by (auto simp: geometry_step_def Let_def fps_less_iff)

lemma geometry_step_keep:
  assumes "\<not> (g_fps_n g = 0 \<and> g_fps_d g = 0)"
    and "\<not> sint (g_fps_n g) * sint (pad_fps_d (pads w)) < sint (pad_fps_n (pads w)) * sint (g_fps_d g)"
  shows "g_master (geometry_step pads g w) = g_master g
         \<and> g_fps_n (geometry_step pads g w) = g_fps_n g
         \<and> g_fps_d (geometry_step pads g w) = g_fps_d g
         \<and> g_par_n (geometry_step pads g w) = g_par_n g
         \<and> g_par_d (geometry_step pads g w) = g_par_d g"
  using assms by (auto simp: geometry_step_def Let_def fps_less_iff)

lemma master_of_first:
  assumes "g_fps_n g = 0" "g_fps_d g = 0"
  shows "master_of pads [w] (geometry_step pads g w)"
proof -
  have "[w] = [] @ w # []" by simp
  then show ?thesis
    unfolding master_of_def using geometry_step_replace [of g pads w] assms
    by (intro exI [of _ "[]"] exI [of _ w]) auto
qed

lemma master_of_step:
  assumes inv: "master_of pads seen g"
    and wf: "\<forall>i\<in>set seen. rate_wellformed (pads i)" "rate_wellformed (pads w)"
  shows "master_of pads (seen @ [w]) (geometry_step pads g w)"
proof -
  from inv obtain xs m ys where d: "seen = xs @ m # ys" and gm: "g_master g = Some m"
    and fn: "g_fps_n g = pad_fps_n (pads m)" and fd: "g_fps_d g = pad_fps_d (pads m)"
    and pn: "g_par_n g = pad_par_n (pads m)" and pd: "g_par_d g = pad_par_d (pads m)"
    and before: "\<forall>x\<in>set xs. rate_unset (pads x) \<or> rate_below (pads x) (pads m)"
    and after: "\<forall>y\<in>set ys. \<not> rate_unset (pads m) \<and> \<not> rate_below (pads m) (pads y)"
    unfolding master_of_def by blast
  have wfm: "rate_wellformed (pads m)" using wf(1) d by simp
  show ?thesis
  proof (cases "rate_unset (pads m) \<or> rate_below (pads m) (pads w)")
    case True
    then have rep: "(g_fps_n g = 0 \<and> g_fps_d g = 0)
           \<or> sint (g_fps_n g) * sint (pad_fps_d (pads w)) < sint (pad_fps_n (pads w)) * sint (g_fps_d g)"
      by (auto simp: rate_unset_def rate_below_def fn fd)
    have st: "g_master (geometry_step pads g w) = Some w
         \<and> g_fps_n (geometry_step pads g w) = pad_fps_n (pads w)
         \<and> g_fps_d (geometry_step pads g w) = pad_fps_d (pads w)
         \<and> g_par_n (geometry_step pads g w) = pad_par_n (pads w)
         \<and> g_par_d (geometry_step pads g w) = pad_par_d (pads w)"
      using geometry_step_replace [of g pads w] rep by blast
    have all: "\<forall>x\<in>set (xs @ m # ys). rate_unset (pads x) \<or> rate_below (pads x) (pads w)"
    proof
      fix x assume x: "x \<in> set (xs @ m # ys)"
      have wfx: "rate_wellformed (pads x)" using wf(1) d x by auto
      show "rate_unset (pads x) \<or> rate_below (pads x) (pads w)"
      proof (cases "rate_unset (pads m)")
        case um: True
        have "ys = []" using after um by (cases ys) auto
        moreover have "\<not> rate_below p (pads m)" for p
          using um by (simp add: rate_below_def rate_unset_def)
        ultimately show ?thesis using x before um by auto
      next
        case nm: False
        then have mw: "rate_below (pads m) (pads w)" using True by simp
        consider "x \<in> set xs" | "x = m" | "x \<in> set ys" using x by auto
        then show ?thesis
        proof cases
          case 1
          then show ?thesis
            using before mw rate_below_trans wfx wfm wf(2) by blast
        next
          case 2
          then show ?thesis using mw by simp
        next
          case 3
          then have "\<not> rate_below (pads m) (pads x)" using after by simp
          then show ?thesis
            using rate_not_below_trans [of "pads m" "pads x" "pads w"] mw wfx wfm wf(2)
            by blast
        qed
      qed
    qed
    have "seen @ [w] = (xs @ m # ys) @ w # []" using d by simp
    then show ?thesis
      unfolding master_of_def using st all
      by (intro exI [of _ "xs @ m # ys"] exI [of _ w] exI [of _ "[]"]) simp
  next
    case False
    then have keep: "\<not> (g_fps_n g = 0 \<and> g_fps_d g = 0)"
        "\<not> sint (g_fps_n g) * sint (pad_fps_d (pads w)) < sint (pad_fps_n (pads w)) * sint (g_fps_d g)"
      by (auto simp: rate_unset_def rate_below_def fn fd)
    have st: "g_master (geometry_step pads g w) = g_master g
         \<and> g_fps_n (geometry_step pads g w) = g_fps_n g
         \<and> g_fps_d (geometry_step pads g w) = g_fps_d g
         \<and> g_par_n (geometry_step pads g w) = g_par_n g
         \<and> g_par_d (geometry_step pads g w) = g_par_d g"
      using geometry_step_keep [of g pads w] keep by blast
    have "seen @ [w] = xs @ m # (ys @ [w])" using d by simp
    moreover have "\<forall>y\<in>set (ys @ [w]). \<not> rate_unset (pads m) \<and> \<not> rate_below (pads m) (pads y)"
      using after False by auto
    ultimately show ?thesis
      unfolding master_of_def using st gm fn fd pn pd before
      by (intro exI [of _ xs] exI [of _ m] exI [of _ "ys @ [w]"]) simp
  qed
qed

lemma master_of_walk:
  assumes "master_of pads seen g"
    and "\<forall>i\<in>set seen. rate_wellformed (pads i)" "\<forall>i\<in>set rest. rate_wellformed (pads i)"
  shows "master_of pads (seen @ rest) (geometry_walk pads rest g)"
  using assms
proof (induction rest arbitrary: seen g)
  case Nil
  then show ?case by simp
next
  case (Cons w rest)
  have "master_of pads (seen @ [w]) (geometry_step pads g w)"
    using master_of_step Cons.prems by simp
  moreover have "\<forall>i\<in>set (seen @ [w]). rate_wellformed (pads i)"
    using Cons.prems by simp
  ultimately have "master_of pads ((seen @ [w]) @ rest) (geometry_walk pads rest (geometry_step pads g w))"
    using Cons.IH [of "seen @ [w]" "geometry_step pads g w"] Cons.prems by simp
  then show ?case by simp
qed

lemma master_of_geometry:
  assumes "\<forall>i\<in>set ids. rate_wellformed (pads i)" "ids \<noteq> []"
  shows "master_of pads ids (geometry_walk pads ids geometry_init)"
proof -
  obtain w rest where ids: "ids = w # rest" using assms(2) by (cases ids) auto
  have "master_of pads [w] (geometry_step pads geometry_init w)"
    by (rule master_of_first) (simp_all add: geometry_init_def)
  then have "master_of pads ([w] @ rest) (geometry_walk pads rest (geometry_step pads geometry_init w))"
    using master_of_walk [of pads "[w]" "geometry_step pads geometry_init w" rest] assms(1) ids
    by simp
  then show ?thesis using ids by simp
qed

lemma set_master_geometry_fields:
  fixes mix :: GstVideoMixer
  defines "g \<equiv> geometry_walk (mix_pads mix) (mix_sinkpads mix) geometry_init"
  defines "mix' \<equiv> gst_videomixer_set_master_geometry mix"
  shows "mix_master mix' = g_master g" "mix_in_width mix' = g_width g"
    "mix_in_height mix' = g_height g" "mix_fps_n mix' = g_fps_n g"
    "mix_fps_d mix' = g_fps_d g" "mix_par_n mix' = g_par_n g" "mix_par_d mix' = g_par_d g"
    "mix_pads mix' = mix_pads mix" "mix_sinkpads mix' = mix_sinkpads mix"
  unfolding g_def mix'_def gst_videomixer_set_master_geometry_def
    gst_videomixer_reset_qos_def gst_videomixer_update_qos_def
  by (simp_all add: Let_def)

section \<open>C1: the master port\<close>

text \<open>
  C1, as the code has it.  The claim calls the master the slowest port; the loop replaces
  its candidate when the candidate's rate is 0/0 or strictly below the port's, so the
  master is the first port of the highest rate.  For ports whose rates are well formed and
  a non-empty port list: the master \<open>m\<close> is one of the ports, the negotiated rate and
  pixel aspect ratio are exactly \<open>m\<close>'s, every port earlier in the list is unset or
  strictly slower than \<open>m\<close>, and no later port is strictly faster than \<open>m\<close>.
\<close>

theorem C1_master_is_first_fastest:
  assumes "\<forall>i\<in>set (mix_sinkpads mix). rate_wellformed (mix_pads mix i)"
    and "mix_sinkpads mix \<noteq> []"
  shows "\<exists>xs m ys. mix_sinkpads mix = xs @ m # ys
           \<and> mix_master (gst_videomixer_set_master_geometry mix) = Some m
           \<and> mix_fps_n (gst_videomixer_set_master_geometry mix) = pad_fps_n (mix_pads mix m)
           \<and> mix_fps_d (gst_videomixer_set_master_geometry mix) = pad_fps_d (mix_pads mix m)
           \<and> mix_par_n (gst_videomixer_set_master_geometry mix) = pad_par_n (mix_pads mix m)
           \<and> mix_par_d (gst_videomixer_set_master_geometry mix) = pad_par_d (mix_pads mix m)
           \<and> (\<forall>x\<in>set xs. rate_unset (mix_pads mix x)
                          \<or> rate_below (mix_pads mix x) (mix_pads mix m))
           \<and> (\<forall>y\<in>set ys. \<not> rate_unset (mix_pads mix m)
                          \<and> \<not> rate_below (mix_pads mix m) (mix_pads mix y))"
proof -
  have "master_of (mix_pads mix) (mix_sinkpads mix)
          (geometry_walk (mix_pads mix) (mix_sinkpads mix) geometry_init)"
    using assms by (rule master_of_geometry)
  then show ?thesis
    unfolding master_of_def set_master_geometry_fields .
qed

theorem C1_master_is_first_fastest_witness:
  "mix_sinkpads example_mixer = [0, 1]
   \<and> rate_wellformed (mix_pads example_mixer 0)
   \<and> rate_wellformed (mix_pads example_mixer 1)
   \<and> (\<exists>xs m ys. mix_sinkpads example_mixer = xs @ m # ys
           \<and> mix_master (gst_videomixer_set_master_geometry example_mixer) = Some m
           \<and> mix_fps_n (gst_videomixer_set_master_geometry example_mixer)
               = pad_fps_n (mix_pads example_mixer m)
           \<and> mix_fps_d (gst_videomixer_set_master_geometry example_mixer)
               = pad_fps_d (mix_pads example_mixer m)
           \<and> mix_par_n (gst_videomixer_set_master_geometry example_mixer)
               = pad_par_n (mix_pads example_mixer m)
           \<and> mix_par_d (gst_videomixer_set_master_geometry example_mixer)
               = pad_par_d (mix_pads example_mixer m)
           \<and> (\<forall>x\<in>set xs. rate_unset (mix_pads example_mixer x)
                          \<or> rate_below (mix_pads example_mixer x) (mix_pads example_mixer m))
           \<and> (\<forall>y\<in>set ys. \<not> rate_unset (mix_pads example_mixer m)
                          \<and> \<not> rate_below (mix_pads example_mixer m) (mix_pads example_mixer y)))"
proof -
  have h1: "\<forall>i\<in>set (mix_sinkpads example_mixer). rate_wellformed (mix_pads example_mixer i)"
    by (simp add: example_defs rate_wellformed_def rate_unset_def word_sless_alt)
  have h2: "mix_sinkpads example_mixer \<noteq> []"
    by (simp add: example_defs)
  have h3: "mix_sinkpads example_mixer = [0, 1]"
    by (simp add: example_defs)
  have "rate_wellformed (mix_pads example_mixer 0) \<and> rate_wellformed (mix_pads example_mixer 1)"
    using h1 unfolding h3 by simp
  with h3 show ?thesis
    using C1_master_is_first_fastest [OF h1 h2] by blast
qed

text \<open>
  The claim as stated fails on the sample pipeline: the port at 5 frames per second is
  strictly slower than the port at 10, and the port at 10 is the master and gives the
  output rate.
\<close>

theorem C1_slowest_counterexample:
  "rate_below (mix_pads example_mixer 1) (mix_pads example_mixer 0)
   \<and> mix_master (gst_videomixer_set_master_geometry example_mixer) = Some 0
   \<and> mix_fps_n (gst_videomixer_set_master_geometry example_mixer) = 10
   \<and> mix_fps_d (gst_videomixer_set_master_geometry example_mixer) = 1"
  by (simp add: example_defs rate_below_def gst_videomixer_set_master_geometry_def
      geometry_step_def geometry_init_def fps_less_def MAX_gint_def Let_def word_sless_alt)

section \<open>C7: the output size\<close>

lemma sint_MAX_gint: "sint (MAX_gint a b) = max (sint a) (sint b)"
  by (auto simp: MAX_gint_def word_sless_alt)

lemma geometry_step_size:
  "g_width (geometry_step pads g w) = MAX_gint (g_width g) (pad_in_width (pads w))"
  "g_height (geometry_step pads g w) = MAX_gint (g_height g) (pad_in_height (pads w))"
  by (simp_all add: geometry_step_def Let_def)

lemma geometry_walk_width_bound:
  "sint (g_width g) \<le> sint (g_width (geometry_walk pads ids g))
   \<and> (\<forall>i\<in>set ids. sint (pad_in_width (pads i)) \<le> sint (g_width (geometry_walk pads ids g)))"
proof (induction ids arbitrary: g)
  case Nil
  then show ?case by simp
next
  case (Cons w ids)
  have "max (sint (g_width g)) (sint (pad_in_width (pads w)))
          \<le> sint (g_width (geometry_walk pads ids (geometry_step pads g w)))"
    using Cons.IH [of "geometry_step pads g w"]
    by (simp add: geometry_step_size sint_MAX_gint)
  then show ?case
    using Cons.IH [of "geometry_step pads g w"] by simp
qed

lemma geometry_walk_width_attained:
  "g_width (geometry_walk pads ids g) = g_width g
   \<or> (\<exists>i\<in>set ids. g_width (geometry_walk pads ids g) = pad_in_width (pads i))"
proof (induction ids arbitrary: g)
  case Nil
  then show ?case by simp
next
  case (Cons w ids)
  have "g_width (geometry_step pads g w) = g_width g
        \<or> g_width (geometry_step pads g w) = pad_in_width (pads w)"
    by (simp add: geometry_step_size MAX_gint_def)
  then show ?case
    using Cons.IH [of "geometry_step pads g w"] by auto
qed

lemma geometry_walk_height_bound:
  "sint (g_height g) \<le> sint (g_height (geometry_walk pads ids g))
   \<and> (\<forall>i\<in>set ids. sint (pad_in_height (pads i)) \<le> sint (g_height (geometry_walk pads ids g)))"
proof (induction ids arbitrary: g)
  case Nil
  then show ?case by simp
next
  case (Cons w ids)
  have "max (sint (g_height g)) (sint (pad_in_height (pads w)))
          \<le> sint (g_height (geometry_walk pads ids (geometry_step pads g w)))"
    using Cons.IH [of "geometry_step pads g w"]
    by (simp add: geometry_step_size sint_MAX_gint)
  then show ?case
    using Cons.IH [of "geometry_step pads g w"] by simp
qed

lemma geometry_walk_height_attained:
  "g_height (geometry_walk pads ids g) = g_height g
   \<or> (\<exists>i\<in>set ids. g_height (geometry_walk pads ids g) = pad_in_height (pads i))"
proof (induction ids arbitrary: g)
  case Nil
  then show ?case by simp
next
  case (Cons w ids)
  have "g_height (geometry_step pads g w) = g_height g
        \<or> g_height (geometry_step pads g w) = pad_in_height (pads w)"
    by (simp add: geometry_step_size MAX_gint_def)
  then show ?case
    using Cons.IH [of "geometry_step pads g w"] by auto
qed

lemma max_native_eqI:
  assumes bound: "\<forall>i\<in>set ids. sint (sel (pads i)) \<le> sint v"
    and attained: "v = 0 \<or> (\<exists>i\<in>set ids. v = sel (pads i))"
    and nonneg: "\<forall>i\<in>set ids. 0 \<le> sint (sel (pads i))"
  shows "sint v = max_native sel pads ids"
proof (cases "ids = []")
  case True
  then show ?thesis using attained by (simp add: max_native_def)
next
  case False
  then obtain j where j: "j \<in> set ids" by (cases ids) auto
  have v: "\<exists>i\<in>set ids. sint v = sint (sel (pads i))"
  proof (cases "v = 0")
    case True
    then have "sint v = sint (sel (pads j))" using bound nonneg j by fastforce
    with j show ?thesis by (intro bexI [of _ j])
  next
    case False
    then show ?thesis using attained by auto
  qed
  have "Max ((\<lambda>i. sint (sel (pads i))) ` set ids) = sint v"
    using bound v by (intro Max_eqI) auto
  then show ?thesis using False by (simp add: max_native_def)
qed

lemma geometry_walk_max:
  assumes "\<forall>i\<in>set ids. 0 \<le>s pad_in_width (pads i) \<and> 0 \<le>s pad_in_height (pads i)"
  shows "sint (g_width (geometry_walk pads ids geometry_init)) = max_native pad_in_width pads ids"
    and "sint (g_height (geometry_walk pads ids geometry_init)) = max_native pad_in_height pads ids"
proof -
  have nn: "\<forall>i\<in>set ids. 0 \<le> sint (pad_in_width (pads i))"
       "\<forall>i\<in>set ids. 0 \<le> sint (pad_in_height (pads i))"
    using assms by (auto simp: word_sle_eq)
  show "sint (g_width (geometry_walk pads ids geometry_init)) = max_native pad_in_width pads ids"
    using geometry_walk_width_bound [of geometry_init pads ids]
      geometry_walk_width_attained [of pads ids geometry_init] nn(1)
    by (intro max_native_eqI) (auto simp: geometry_init_def)
  show "sint (g_height (geometry_walk pads ids geometry_init)) = max_native pad_in_height pads ids"
    using geometry_walk_height_bound [of geometry_init pads ids]
      geometry_walk_height_attained [of pads ids geometry_init] nn(2)
    by (intro max_native_eqI) (auto simp: geometry_init_def)
qed

lemma max_native_cong:
  "(\<forall>i\<in>set ids. sel (pads i) = sel (pads' i)) \<Longrightarrow> max_native sel pads ids = max_native sel pads' ids"
  by (simp add: max_native_def cong: image_cong)

lemma release_pad_fields:
  assumes "pad \<in> set (mix_sinkpads mix)"
  defines "mix1 \<equiv> mix\<lparr>mix_sinkpads := remove1 pad (mix_sinkpads mix),
                      mix_pads := (mix_pads mix)(pad := gst_videomixer_collect_free (mix_pads mix pad)),
                      mix_collect_data := remove1 pad (mix_collect_data mix)\<rparr>"
  shows "mix_sinkpads (gst_videomixer_release_pad mix pad) = remove1 pad (mix_sinkpads mix)"
    and "mix_in_width (gst_videomixer_release_pad mix pad)
         = mix_in_width (gst_videomixer_set_master_geometry mix1)"
    and "mix_in_height (gst_videomixer_release_pad mix pad)
         = mix_in_height (gst_videomixer_set_master_geometry mix1)"
  using assms(1) unfolding mix1_def gst_videomixer_release_pad_def
  by (simp_all add: Let_def set_master_geometry_fields)

lemma collect_free_size:
  "pad_in_width (gst_videomixer_collect_free p) = pad_in_width p"
  "pad_in_height (gst_videomixer_collect_free p) = pad_in_height p"
  by (simp_all add: gst_videomixer_collect_free_def)

text \<open>
  C7.  Native sizes are not negative (a fresh port has 0x0, caps give sizes from 1 up).
  Then after a geometry negotiation the negotiated width is the largest native width of
  the ports and the negotiated height the largest native height, 0 with no ports; and
  releasing a port negotiates again over the ports that remain, so the size shrinks when
  the port released held the maximum.  The next aggregation cycle announces that size as
  the output size (\<open>out_width\<close>, \<open>out_height\<close>).
\<close>

theorem C7_output_size_is_max:
  assumes "\<forall>i\<in>set (mix_sinkpads mix).
             0 \<le>s pad_in_width (mix_pads mix i) \<and> 0 \<le>s pad_in_height (mix_pads mix i)"
  shows "sint (mix_in_width (gst_videomixer_set_master_geometry mix))
           = max_native pad_in_width (mix_pads mix) (mix_sinkpads mix)
         \<and> sint (mix_in_height (gst_videomixer_set_master_geometry mix))
           = max_native pad_in_height (mix_pads mix) (mix_sinkpads mix)
         \<and> (pad \<in> set (mix_sinkpads mix) \<longrightarrow>
              mix_sinkpads (gst_videomixer_release_pad mix pad) = remove1 pad (mix_sinkpads mix)
              \<and> sint (mix_in_width (gst_videomixer_release_pad mix pad))
                  = max_native pad_in_width (mix_pads mix) (remove1 pad (mix_sinkpads mix))
              \<and> sint (mix_in_height (gst_videomixer_release_pad mix pad))
                  = max_native pad_in_height (mix_pads mix) (remove1 pad (mix_sinkpads mix)))
         \<and> mix_out_width (collected_caps (gst_videomixer_set_master_geometry mix))
             = mix_in_width (gst_videomixer_set_master_geometry mix)
         \<and> mix_out_height (collected_caps (gst_videomixer_set_master_geometry mix))
             = mix_in_height (gst_videomixer_set_master_geometry mix)"
proof (intro conjI impI)
  show "mix_out_width (collected_caps (gst_videomixer_set_master_geometry mix))
             = mix_in_width (gst_videomixer_set_master_geometry mix)"
    and "mix_out_height (collected_caps (gst_videomixer_set_master_geometry mix))
             = mix_in_height (gst_videomixer_set_master_geometry mix)"
    by (auto simp: collected_caps_def gst_pad_set_caps_def gst_videomixer_setcaps_def
        gst_video_format_parse_caps_def Let_def split: option.splits)
  show "sint (mix_in_width (gst_videomixer_set_master_geometry mix))
           = max_native pad_in_width (mix_pads mix) (mix_sinkpads mix)"
    using geometry_walk_max(1) [OF assms] by (simp add: set_master_geometry_fields)
  show "sint (mix_in_height (gst_videomixer_set_master_geometry mix))
           = max_native pad_in_height (mix_pads mix) (mix_sinkpads mix)"
    using geometry_walk_max(2) [OF assms] by (simp add: set_master_geometry_fields)
next
  assume pad: "pad \<in> set (mix_sinkpads mix)"
  define pads' where "pads' = (mix_pads mix)(pad := gst_videomixer_collect_free (mix_pads mix pad))"
  define ids' where "ids' = remove1 pad (mix_sinkpads mix)"
  have same: "pad_in_width (pads' i) = pad_in_width (mix_pads mix i)"
      "pad_in_height (pads' i) = pad_in_height (mix_pads mix i)" for i
    by (simp_all add: pads'_def collect_free_size)
  have nn: "\<forall>i\<in>set ids'. 0 \<le>s pad_in_width (pads' i) \<and> 0 \<le>s pad_in_height (pads' i)"
    using assms notin_set_remove1 [of _ "mix_sinkpads mix" pad] unfolding ids'_def same by blast
  show "mix_sinkpads (gst_videomixer_release_pad mix pad) = remove1 pad (mix_sinkpads mix)"
    using release_pad_fields(1) [OF pad] .
  have "mix_in_width (gst_videomixer_release_pad mix pad)
          = g_width (geometry_walk pads' ids' geometry_init)"
    by (simp add: release_pad_fields(2) [OF pad] set_master_geometry_fields pads'_def ids'_def)
  then have "sint (mix_in_width (gst_videomixer_release_pad mix pad)) = max_native pad_in_width pads' ids'"
    using geometry_walk_max(1) [OF nn] by simp
  then show "sint (mix_in_width (gst_videomixer_release_pad mix pad))
                  = max_native pad_in_width (mix_pads mix) (remove1 pad (mix_sinkpads mix))"
    using max_native_cong [of ids' pad_in_width pads' "mix_pads mix"] same by (simp add: ids'_def)
  have "mix_in_height (gst_videomixer_release_pad mix pad)
          = g_height (geometry_walk pads' ids' geometry_init)"
    by (simp add: release_pad_fields(3) [OF pad] set_master_geometry_fields pads'_def ids'_def)
  then have "sint (mix_in_height (gst_videomixer_release_pad mix pad)) = max_native pad_in_height pads' ids'"
    using geometry_walk_max(2) [OF nn] by simp
  then show "sint (mix_in_height (gst_videomixer_release_pad mix pad))
                  = max_native pad_in_height (mix_pads mix) (remove1 pad (mix_sinkpads mix))"
    using max_native_cong [of ids' pad_in_height pads' "mix_pads mix"] same by (simp add: ids'_def)
qed

theorem C7_output_size_is_max_witness:
  "mix_sinkpads example_mixer = [0, 1]
   \<and> 0 \<le>s pad_in_width (mix_pads example_mixer 0) \<and> 0 \<le>s pad_in_height (mix_pads example_mixer 0)
   \<and> 0 \<le>s pad_in_width (mix_pads example_mixer 1) \<and> 0 \<le>s pad_in_height (mix_pads example_mixer 1)
   \<and> 1 \<in> set (mix_sinkpads example_mixer)
   \<and> sint (mix_in_width (gst_videomixer_set_master_geometry example_mixer)) = 320
   \<and> sint (mix_in_height (gst_videomixer_set_master_geometry example_mixer)) = 240
   \<and> mix_sinkpads (gst_videomixer_release_pad example_mixer 1) = [0]
   \<and> sint (mix_in_width (gst_videomixer_release_pad example_mixer 1)) = 100
   \<and> sint (mix_in_height (gst_videomixer_release_pad example_mixer 1)) = 100"
proof -
  have h: "\<forall>i\<in>set (mix_sinkpads example_mixer).
       0 \<le>s pad_in_width (mix_pads example_mixer i) \<and> 0 \<le>s pad_in_height (mix_pads example_mixer i)"
    by (simp add: example_defs word_sle_eq)
  have p: "1 \<in> set (mix_sinkpads example_mixer)"
    by (simp add: example_defs)
  have v: "max_native pad_in_width (mix_pads example_mixer) (mix_sinkpads example_mixer) = 320"
    "max_native pad_in_height (mix_pads example_mixer) (mix_sinkpads example_mixer) = 240"
    "remove1 1 (mix_sinkpads example_mixer) = [0]"
    "max_native pad_in_width (mix_pads example_mixer) [0] = 100"
    "max_native pad_in_height (mix_pads example_mixer) [0] = 100"
    by (simp_all add: example_defs max_native_def)
  have l: "mix_sinkpads example_mixer = [0, 1]"
    by (simp add: example_defs)
  have "0 \<le>s pad_in_width (mix_pads example_mixer 0) \<and> 0 \<le>s pad_in_height (mix_pads example_mixer 0)
   \<and> 0 \<le>s pad_in_width (mix_pads example_mixer 1) \<and> 0 \<le>s pad_in_height (mix_pads example_mixer 1)"
    using h unfolding l by simp
  with l show ?thesis
    using p C7_output_size_is_max [OF h, of 1] unfolding v by blast
qed

section \<open>C5: recording a QoS observation\<close>

lemma scale_second:
  assumes "0 <s n" "0 <s d"
  shows "uint (gst_util_uint64_scale_int GST_SECOND d n) = (1000000000 * sint d) div sint n"
proof -
  have n: "0 < sint n" and d: "0 < sint d" using assms by (simp_all add: word_sless_alt)
  have dlt: "sint d < 2 ^ 31" using sint_lt [of d] by simp
  have "(1000000000 * sint d) div sint n \<le> 1000000000 * sint d"
    using n d zdiv_mono2 [of "1000000000 * sint d" 1 "sint n"] by simp
  also have "\<dots> < 2 ^ 64" using dlt by simp
  finally have lt: "(1000000000 * sint d) div sint n < 2 ^ 64" .
  have ge: "0 \<le> (1000000000 * sint d) div sint n"
    using n d by (simp add: pos_imp_zdiv_nonneg_iff)
  have sec: "uint GST_SECOND = 1000000000" by (simp add: GST_SECOND_def)
  have "gst_util_uint64_scale_int GST_SECOND d n = word_of_int ((1000000000 * sint d) div sint n)"
    using assms lt n by (simp add: gst_util_uint64_scale_int_def sec Let_def word_sless_alt)
  moreover have "uint (word_of_int ((1000000000 * sint d) div sint n) :: 64 word)
                 = (1000000000 * sint d) div sint n"
    using ge lt by (simp add: uint_word_of_int take_bit_int_eq_self)
  ultimately show ?thesis by simp
qed

text \<open>
  C5.  The arithmetic is that of \<open>guint64\<close>, modulo \<open>2 ^ 64\<close>.  With a valid reported
  timestamp the new earliest acceptable timestamp is timestamp + 2 * diff + one output
  interval when diff is positive and timestamp + diff otherwise, where one output
  interval is \<open>GST_SECOND\<close> scaled by \<open>fps_d / fps_n\<close>: for a positive output rate,
  \<open>10^9 * fps_d div fps_n\<close> nanoseconds.  A reset leaves the proportion at 0.5 and the
  earliest acceptable timestamp invalid.
\<close>

theorem C5_qos_update_and_reset:
  "(timestamp \<noteq> GST_CLOCK_TIME_NONE \<longrightarrow>
      mix_earliest_time (gst_videomixer_update_qos mix proportion diff timestamp)
        = (if 0 <s diff
           then timestamp + 2 * diff
                + gst_util_uint64_scale_int GST_SECOND (mix_fps_d mix) (mix_fps_n mix)
           else timestamp + diff))
   \<and> (0 <s mix_fps_n mix \<and> 0 <s mix_fps_d mix \<longrightarrow>
        uint (gst_util_uint64_scale_int GST_SECOND (mix_fps_d mix) (mix_fps_n mix))
          = (1000000000 * sint (mix_fps_d mix)) div sint (mix_fps_n mix))
   \<and> mix_proportion (gst_videomixer_reset_qos mix) = 0.5
   \<and> mix_earliest_time (gst_videomixer_reset_qos mix) = GST_CLOCK_TIME_NONE"
  using scale_second [of "mix_fps_n mix" "mix_fps_d mix"]
  by (simp add: gst_videomixer_update_qos_def gst_videomixer_reset_qos_def Let_def)

lemma example_negotiated_fps:
  "mix_fps_n example_negotiated = 10" "mix_fps_d example_negotiated = 1"
  by (simp_all add: example_negotiated_def example_defs gst_videomixer_set_master_geometry_def
      geometry_step_def geometry_init_def fps_less_def MAX_gint_def Let_def word_sless_alt)

theorem C5_qos_update_and_reset_witness:
  "(1000000000 :: GstClockTime) \<noteq> GST_CLOCK_TIME_NONE
   \<and> 0 <s mix_fps_n example_negotiated \<and> 0 <s mix_fps_d example_negotiated
   \<and> mix_earliest_time (gst_videomixer_update_qos example_negotiated 0.5 20000000 1000000000)
       = 1140000000
   \<and> mix_earliest_time (gst_videomixer_update_qos example_negotiated 0.5 (- 5) 1000000000)
       = 999999995
   \<and> uint (gst_util_uint64_scale_int GST_SECOND (mix_fps_d example_negotiated)
             (mix_fps_n example_negotiated)) = 100000000"
proof -
  have h: "(1000000000 :: GstClockTime) \<noteq> GST_CLOCK_TIME_NONE"
    by (simp add: GST_CLOCK_TIME_NONE_def)
  have r: "0 <s mix_fps_n example_negotiated \<and> 0 <s mix_fps_d example_negotiated"
    by (simp add: example_negotiated_fps word_sless_alt)
  have s: "(0 :: gint64) <s 20000000" "\<not> (0 :: gint64) <s - 5"
    by (simp_all add: word_sless_alt)
  have u: "uint (gst_util_uint64_scale_int GST_SECOND (mix_fps_d example_negotiated)
             (mix_fps_n example_negotiated)) = 100000000"
    using C5_qos_update_and_reset [of 1000000000 example_negotiated "0.5" 20000000] r
    by (simp add: example_negotiated_fps)
  then have w: "gst_util_uint64_scale_int GST_SECOND (mix_fps_d example_negotiated)
             (mix_fps_n example_negotiated) = 100000000"
    by (metis uint_numeral word_of_int_uint word_of_int_numeral)
  show ?thesis
    using h r u s C5_qos_update_and_reset [of 1000000000 example_negotiated "0.5" 20000000]
      C5_qos_update_and_reset [of 1000000000 example_negotiated "0.5" "- 5"]
    by (simp add: w)
qed

section \<open>C8: the effective scaling method\<close>

text \<open>
  C8.  The method a scaling call uses: nearest neighbour when the input width is 1,
  whatever is configured; otherwise bilinear when 4-tap is configured and the input
  width or height is below 4; otherwise the configured method.  For a format the switch
  knows, that method is the one the call dispatches on.
\<close>

theorem C8_effective_scaling_method:
  "scale_method mix pad
     = (if pad_in_width pad = 1 then GST_VIDEO_SCALE_NEAREST
        else if mix_method mix = GST_VIDEO_SCALE_4TAP
                \<and> (sint (pad_in_width pad) < 4 \<or> sint (pad_in_height pad) < 4)
        then GST_VIDEO_SCALE_BILINEAR
        else mix_method mix)
   \<and> (\<forall>family. scale_family (mix_fmt mix) = Some family \<longrightarrow>
         gst_video_scale_transform mix pad = (GST_FLOW_OK, Some (family, scale_method mix pad)))"
  by (auto simp: scale_method_def gst_video_scale_transform_def Let_def word_sless_alt)

theorem C8_effective_scaling_method_witness:
  "scale_family (mix_fmt (example_mixer\<lparr>mix_fmt := GST_VIDEO_FORMAT_AYUV, mix_method := GST_VIDEO_SCALE_4TAP\<rparr>)) = Some VS_RGBA
   \<and> gst_video_scale_transform
        (example_mixer\<lparr>mix_fmt := GST_VIDEO_FORMAT_AYUV, mix_method := GST_VIDEO_SCALE_4TAP\<rparr>)
        (example_pad 3 100 10 1) = (GST_FLOW_OK, Some (VS_RGBA, GST_VIDEO_SCALE_BILINEAR))
   \<and> gst_video_scale_transform
        (example_mixer\<lparr>mix_fmt := GST_VIDEO_FORMAT_AYUV, mix_method := GST_VIDEO_SCALE_4TAP\<rparr>)
        (example_pad 1 100 10 1) = (GST_FLOW_OK, Some (VS_RGBA, GST_VIDEO_SCALE_NEAREST))
   \<and> gst_video_scale_transform
        (example_mixer\<lparr>mix_fmt := GST_VIDEO_FORMAT_AYUV, mix_method := GST_VIDEO_SCALE_4TAP\<rparr>)
        (example_pad 100 100 10 1) = (GST_FLOW_OK, Some (VS_RGBA, GST_VIDEO_SCALE_4TAP))"
proof -
  let ?mix = "example_mixer\<lparr>mix_fmt := GST_VIDEO_FORMAT_AYUV, mix_method := GST_VIDEO_SCALE_4TAP\<rparr>"
  have f: "scale_family (mix_fmt ?mix) = Some VS_RGBA" by simp
  have p: "pad_in_width (example_pad w h n d) = w" "pad_in_height (example_pad w h n d) = h"
    for w h n d by (simp_all add: example_pad_def)
  show ?thesis
    using f C8_effective_scaling_method [of ?mix "example_pad 3 100 10 1"]
      C8_effective_scaling_method [of ?mix "example_pad 1 100 10 1"]
      C8_effective_scaling_method [of ?mix "example_pad 100 100 10 1"]
    by (simp add: p)
qed

section \<open>The fill step\<close>

text \<open>
  Filling the queues leaves every listed port as one fetch leaves it, raises the
  end-of-stream flag exactly when no listed port then has data, and hands only segment
  events to the source pad.
\<close>

lemma fill_queues_fetch_idem:
  "fill_queues_fetch (fill_queues_fetch p) = fill_queues_fetch p"
  by (simp add: fill_queues_fetch_def Let_def split: option.splits)

lemma fill_queues_sendseg_pads:
  "mix_pads (fill_queues_sendseg core mix walk) = mix_pads mix"
  by (simp add: fill_queues_sendseg_def Let_def)

lemma fill_queues_walk_pads:
  "mix_pads (snd (fill_queues_walk core ids eos mix))
     = (\<lambda>i. if i \<in> set ids then fill_queues_fetch (mix_pads mix i) else mix_pads mix i)"
proof (induction ids arbitrary: eos mix)
  case Nil
  then show ?case by simp
next
  case (Cons w ids)
  show ?case
    by (simp add: Let_def Cons.IH fill_queues_sendseg_pads fill_queues_fetch_idem fun_eq_iff)
qed

lemma fill_queues_walk_eos:
  "fst (fill_queues_walk core ids eos mix)
     = (eos \<and> (\<forall>i\<in>set ids. \<not> pad_has_data (fill_queues_fetch (mix_pads mix i))))"
proof (induction ids arbitrary: eos mix)
  case Nil
  then show ?case by simp
next
  case (Cons w ids)
  show ?case
    by (auto simp: Let_def Cons.IH fill_queues_sendseg_pads fill_queues_fetch_idem)
qed

lemma fill_queues_sendseg_srcpad:
  "\<exists>evs. mix_srcpad (fill_queues_sendseg core mix walk) = mix_srcpad mix @ evs \<and> list_all quiet evs"
  by (simp add: fill_queues_sendseg_def Let_def)

lemma fill_queues_walk_srcpad:
  "\<exists>evs. mix_srcpad (snd (fill_queues_walk core ids eos mix)) = mix_srcpad mix @ evs
         \<and> list_all quiet evs"
proof (induction ids arbitrary: eos mix)
  case Nil
  then show ?case by simp
next
  case (Cons w ids)
  define mix1 where "mix1 = mix\<lparr>mix_pads := (mix_pads mix)(w := fill_queues_fetch (mix_pads mix w))\<rparr>"
  define mix2 where "mix2 = fill_queues_sendseg core mix1 w"
  define eos1 where "eos1 = (if pad_has_data (mix_pads mix2 w) then False else eos)"
  have step: "fill_queues_walk core (w # ids) eos mix = fill_queues_walk core ids eos1 mix2"
    by (simp add: Let_def mix1_def mix2_def eos1_def)
  obtain evs1 where e1: "mix_srcpad mix2 = mix_srcpad mix @ evs1" "list_all quiet evs1"
    using fill_queues_sendseg_srcpad [of core mix1 w] by (auto simp: mix2_def mix1_def)
  obtain evs2 where e2: "mix_srcpad (snd (fill_queues_walk core ids eos1 mix2)) = mix_srcpad mix2 @ evs2"
      "list_all quiet evs2"
    using Cons.IH [of eos1 mix2] by blast
  show ?case
    unfolding step using e1 e2 by (intro exI [of _ "evs1 @ evs2"]) simp
qed

lemma fill_queues_sendseg_keeps:
  "mix_master (fill_queues_sendseg core mix walk) = mix_master mix"
  "mix_sinkpads (fill_queues_sendseg core mix walk) = mix_sinkpads mix"
  "mix_last_ts (fill_queues_sendseg core mix walk) = mix_last_ts mix"
  "mix_last_duration (fill_queues_sendseg core mix walk) = mix_last_duration mix"
  "mix_in_width (fill_queues_sendseg core mix walk) = mix_in_width mix"
  "mix_blend (fill_queues_sendseg core mix walk) = mix_blend mix"
  "mix_fps_n (fill_queues_sendseg core mix walk) = mix_fps_n mix"
  "mix_fps_d (fill_queues_sendseg core mix walk) = mix_fps_d mix"
  "mix_earliest_time (fill_queues_sendseg core mix walk) = mix_earliest_time mix"
  "mix_background (fill_queues_sendseg core mix walk) = mix_background mix"
  by (simp_all add: fill_queues_sendseg_def Let_def)

lemma fill_queues_walk_keeps:
  "mix_master (snd (fill_queues_walk core ids eos mix)) = mix_master mix
   \<and> mix_sinkpads (snd (fill_queues_walk core ids eos mix)) = mix_sinkpads mix
   \<and> mix_last_ts (snd (fill_queues_walk core ids eos mix)) = mix_last_ts mix
   \<and> mix_last_duration (snd (fill_queues_walk core ids eos mix)) = mix_last_duration mix
   \<and> mix_in_width (snd (fill_queues_walk core ids eos mix)) = mix_in_width mix
   \<and> mix_blend (snd (fill_queues_walk core ids eos mix)) = mix_blend mix
   \<and> mix_fps_n (snd (fill_queues_walk core ids eos mix)) = mix_fps_n mix
   \<and> mix_fps_d (snd (fill_queues_walk core ids eos mix)) = mix_fps_d mix
   \<and> mix_earliest_time (snd (fill_queues_walk core ids eos mix)) = mix_earliest_time mix
   \<and> mix_background (snd (fill_queues_walk core ids eos mix)) = mix_background mix"
proof (induction ids arbitrary: eos mix)
  case Nil
  then show ?case by simp
next
  case (Cons w ids)
  show ?case
    by (simp add: Let_def Cons.IH fill_queues_sendseg_keeps)
qed

lemma collected_flush_stop_keeps:
  "mix_pads (collected_flush_stop mix) = mix_pads mix"
  "mix_collect_data (collected_flush_stop mix) = mix_collect_data mix"
  "mix_master (collected_flush_stop mix) = mix_master mix"
  "mix_sinkpads (collected_flush_stop mix) = mix_sinkpads mix"
  "mix_last_ts (collected_flush_stop mix) = mix_last_ts mix"
  "mix_last_duration (collected_flush_stop mix) = mix_last_duration mix"
  "mix_in_width (collected_flush_stop mix) = mix_in_width mix"
  "mix_blend (collected_flush_stop mix) = mix_blend mix"
  "mix_fps_n (collected_flush_stop mix) = mix_fps_n mix"
  "mix_fps_d (collected_flush_stop mix) = mix_fps_d mix"
  "mix_earliest_time (collected_flush_stop mix) = mix_earliest_time mix"
  "mix_background (collected_flush_stop mix) = mix_background mix"
  by (simp_all add: collected_flush_stop_def)

lemma collected_flush_stop_srcpad:
  "\<exists>evs. mix_srcpad (collected_flush_stop mix) = mix_srcpad mix @ evs \<and> list_all quiet evs"
  by (simp add: collected_flush_stop_def)

lemma cycle_fill_eos:
  "fst (cycle_fill core mix)
     = (\<forall>i\<in>set (mix_collect_data mix). \<not> pad_has_data (fill_queues_fetch (mix_pads mix i)))"
  by (simp add: cycle_fill_def gst_videomixer_fill_queues_def fill_queues_walk_eos
      collected_flush_stop_keeps)

lemma cycle_fill_pads:
  "mix_pads (snd (cycle_fill core mix))
     = (\<lambda>i. if i \<in> set (mix_collect_data mix) then fill_queues_fetch (mix_pads mix i)
             else mix_pads mix i)"
  by (simp add: cycle_fill_def gst_videomixer_fill_queues_def fill_queues_walk_pads
      collected_flush_stop_keeps cong: if_cong)

lemma cycle_fill_keeps:
  "mix_master (snd (cycle_fill core mix)) = mix_master mix"
  "mix_sinkpads (snd (cycle_fill core mix)) = mix_sinkpads mix"
  "mix_last_ts (snd (cycle_fill core mix)) = mix_last_ts mix"
  "mix_last_duration (snd (cycle_fill core mix)) = mix_last_duration mix"
  "mix_in_width (snd (cycle_fill core mix)) = mix_in_width mix"
  "mix_blend (snd (cycle_fill core mix)) = mix_blend mix"
  "mix_fps_n (snd (cycle_fill core mix)) = mix_fps_n mix"
  "mix_fps_d (snd (cycle_fill core mix)) = mix_fps_d mix"
  "mix_earliest_time (snd (cycle_fill core mix)) = mix_earliest_time mix"
  "mix_background (snd (cycle_fill core mix)) = mix_background mix"
  by (simp_all add: cycle_fill_def gst_videomixer_fill_queues_def fill_queues_walk_keeps
      collected_flush_stop_keeps)

lemma cycle_fill_srcpad:
  "\<exists>evs. mix_srcpad (snd (cycle_fill core mix)) = mix_srcpad mix @ evs \<and> list_all quiet evs"
proof -
  obtain evs1 where e1: "mix_srcpad (collected_flush_stop mix) = mix_srcpad mix @ evs1"
      "list_all quiet evs1"
    using collected_flush_stop_srcpad by blast
  obtain evs2 where e2: "mix_srcpad (snd (cycle_fill core mix))
        = mix_srcpad (collected_flush_stop mix) @ evs2" "list_all quiet evs2"
    unfolding cycle_fill_def gst_videomixer_fill_queues_def
    using fill_queues_walk_srcpad by blast
  show ?thesis using e1 e2 by (intro exI [of _ "evs1 @ evs2"]) simp
qed

section \<open>The shape of an aggregation cycle\<close>

lemma collected_caps_keeps:
  "mix_pads (collected_caps mix) = mix_pads mix"
  "mix_master (collected_caps mix) = mix_master mix"
  "mix_sinkpads (collected_caps mix) = mix_sinkpads mix"
  "mix_last_ts (collected_caps mix) = mix_last_ts mix"
  "mix_last_duration (collected_caps mix) = mix_last_duration mix"
  "mix_fps_n (collected_caps mix) = mix_fps_n mix"
  "mix_fps_d (collected_caps mix) = mix_fps_d mix"
  "mix_earliest_time (collected_caps mix) = mix_earliest_time mix"
  "mix_background (collected_caps mix) = mix_background mix"
  by (simp_all add: collected_caps_def gst_pad_set_caps_def gst_videomixer_setcaps_def
      gst_video_format_parse_caps_def Let_def split: option.splits)

lemma collected_caps_srcpad:
  "\<exists>evs. mix_srcpad (collected_caps mix) = mix_srcpad mix @ evs \<and> list_all quiet evs"
  by (simp add: collected_caps_def gst_pad_set_caps_def gst_videomixer_setcaps_def
      gst_video_format_parse_caps_def Let_def split: option.splits)

lemma collected_unfold:
  assumes "mix_in_width mix \<noteq> 0"
  shows "gst_videomixer_collected core alloc_ret push_ret mix =
     (if fst (cycle_fill core mix) then
        (Returned GST_FLOW_WRONG_STATE,
         (snd (cycle_fill core mix))
           \<lparr>mix_srcpad := mix_srcpad (snd (cycle_fill core mix)) @ [EvEOS]\<rparr>)
      else case mix_master mix of
        None \<Rightarrow> (Aborted, collected_caps (snd (cycle_fill core mix)))
      | Some master \<Rightarrow>
          if \<not> gst_videomixer_do_qos core (cycle_derived core mix master)
                 (cycle_timestamp core mix master)
          then (case gst_videomixer_update_queues (cycle_derived core mix master) of
                  Some mix' \<Rightarrow> (Returned GST_FLOW_OK, mix')
                | None \<Rightarrow> (Aborted, cycle_derived core mix master))
          else if \<not> mix_blend (cycle_derived core mix master)
          then (Aborted, cycle_derived core mix master)
          else if alloc_ret \<noteq> GST_FLOW_OK
          then (Returned alloc_ret, cycle_derived core mix master)
          else (case gst_videomixer_update_queues (cycle_derived core mix master) of
                  Some mix' \<Rightarrow>
                    (Returned push_ret,
                     mix'\<lparr>mix_srcpad := mix_srcpad mix'
                        @ [PushBuffer (cycle_timestamp core mix master)
                             (cycle_duration core mix master)
                             (mix_background (cycle_derived core mix master))
                             (gst_videomixer_blend_buffers (cycle_derived core mix master))]\<rparr>)
                | None \<Rightarrow> (Aborted, cycle_derived core mix master)))"
  using assms
  by (simp add: gst_videomixer_collected_def cycle_fill_def cycle_derive_def cycle_timestamp_def
      cycle_duration_def cycle_derived_def Let_def case_prod_beta collected_caps_keeps
      cycle_fill_keeps [unfolded cycle_fill_def] split: option.splits)

lemma collected_timestamp_keeps:
  "mix_master (snd (snd (collected_timestamp core mix m))) = mix_master mix"
  "mix_pads (snd (snd (collected_timestamp core mix m))) = mix_pads mix"
  "mix_sinkpads (snd (snd (collected_timestamp core mix m))) = mix_sinkpads mix"
  "mix_srcpad (snd (snd (collected_timestamp core mix m))) = mix_srcpad mix"
  "mix_blend (snd (snd (collected_timestamp core mix m))) = mix_blend mix"
  "mix_fps_n (snd (snd (collected_timestamp core mix m))) = mix_fps_n mix"
  "mix_fps_d (snd (snd (collected_timestamp core mix m))) = mix_fps_d mix"
  "mix_earliest_time (snd (snd (collected_timestamp core mix m))) = mix_earliest_time mix"
  "mix_background (snd (snd (collected_timestamp core mix m))) = mix_background mix"
  by (simp_all add: collected_timestamp_def Let_def split: option.splits)

lemma collected_advance_keeps:
  "mix_master (collected_advance d mix) = mix_master mix"
  "mix_pads (collected_advance d mix) = mix_pads mix"
  "mix_sinkpads (collected_advance d mix) = mix_sinkpads mix"
  "mix_srcpad (collected_advance d mix) = mix_srcpad mix"
  "mix_last_duration (collected_advance d mix) = mix_last_duration mix"
  "mix_blend (collected_advance d mix) = mix_blend mix"
  "mix_fps_n (collected_advance d mix) = mix_fps_n mix"
  "mix_fps_d (collected_advance d mix) = mix_fps_d mix"
  "mix_earliest_time (collected_advance d mix) = mix_earliest_time mix"
  "mix_background (collected_advance d mix) = mix_background mix"
  by (simp_all add: collected_advance_def)

lemma collected_timestamp_last:
  "mix_last_ts (snd (snd (collected_timestamp core mix m))) = fst (collected_timestamp core mix m)"
  "mix_last_duration (snd (snd (collected_timestamp core mix m)))
     = fst (snd (collected_timestamp core mix m))"
  by (simp_all add: collected_timestamp_def Let_def split: option.splits)

text \<open>The derived pair, by cases on the frame the master holds after the fill.\<close>

lemma cycle_times:
  "cycle_timestamp core mix m
     = (case pad_buffer (mix_pads (snd (cycle_fill core mix)) m) of
          Some buffer \<Rightarrow>
            gst_segment_to_running_time core (pad_segment (mix_pads (snd (cycle_fill core mix)) m))
              GST_FORMAT_TIME (buf_timestamp buffer)
        | None \<Rightarrow> mix_last_ts mix)"
  "cycle_duration core mix m
     = (case pad_buffer (mix_pads (snd (cycle_fill core mix)) m) of
          Some buffer \<Rightarrow> buf_duration buffer
        | None \<Rightarrow> mix_last_duration mix)"
  by (simp_all add: cycle_timestamp_def cycle_duration_def cycle_derive_def case_prod_beta
      collected_timestamp_def Let_def collected_caps_keeps cycle_fill_keeps split: option.splits)

lemma cycle_derived_last:
  "mix_last_ts (cycle_derived core mix m)
     = (if GST_CLOCK_TIME_IS_VALID (cycle_duration core mix m)
        then cycle_timestamp core mix m + cycle_duration core mix m
        else cycle_timestamp core mix m)"
  "mix_last_duration (cycle_derived core mix m) = cycle_duration core mix m"
  by (simp_all add: cycle_derived_def cycle_timestamp_def cycle_duration_def cycle_derive_def
      case_prod_beta collected_advance_def collected_timestamp_last)

lemma cycle_derived_keeps:
  "mix_master (cycle_derived core mix m) = mix_master mix"
  "mix_sinkpads (cycle_derived core mix m) = mix_sinkpads mix"
  "mix_pads (cycle_derived core mix m) = mix_pads (snd (cycle_fill core mix))"
  "mix_fps_n (cycle_derived core mix m) = mix_fps_n mix"
  "mix_fps_d (cycle_derived core mix m) = mix_fps_d mix"
  "mix_earliest_time (cycle_derived core mix m) = mix_earliest_time mix"
  "mix_background (cycle_derived core mix m) = mix_background mix"
  by (simp_all add: cycle_derived_def cycle_derive_def case_prod_beta collected_advance_keeps
      collected_timestamp_keeps collected_caps_keeps cycle_fill_keeps)

lemma cycle_derived_srcpad:
  "\<exists>evs. mix_srcpad (cycle_derived core mix m) = mix_srcpad mix @ evs \<and> list_all quiet evs"
proof -
  obtain evs1 where e1: "mix_srcpad (snd (cycle_fill core mix)) = mix_srcpad mix @ evs1"
      "list_all quiet evs1"
    using cycle_fill_srcpad by blast
  obtain evs2 where e2: "mix_srcpad (collected_caps (snd (cycle_fill core mix)))
        = mix_srcpad (snd (cycle_fill core mix)) @ evs2" "list_all quiet evs2"
    using collected_caps_srcpad by blast
  have "mix_srcpad (cycle_derived core mix m)
          = mix_srcpad (collected_caps (snd (cycle_fill core mix)))"
    by (simp add: cycle_derived_def cycle_derive_def case_prod_beta collected_advance_keeps
        collected_timestamp_keeps)
  then show ?thesis using e1 e2 by (intro exI [of _ "evs1 @ evs2"]) simp
qed

section \<open>Queue accounting, port by port\<close>

lemma update_queues_keeps:
  assumes "gst_videomixer_update_queues mix = Some mix'"
  shows "mix_srcpad mix' = mix_srcpad mix" "mix_last_ts mix' = mix_last_ts mix"
    "mix_last_duration mix' = mix_last_duration mix" "mix_master mix' = mix_master mix"
    "mix_sinkpads mix' = mix_sinkpads mix"
  using assms by (auto simp: gst_videomixer_update_queues_def split: option.splits)

lemma update_queues_Some:
  "mix_master mix = Some m \<Longrightarrow> \<exists>mix'. gst_videomixer_update_queues mix = Some mix'"
  by (simp add: gst_videomixer_update_queues_def)

lemma update_queues_state_eq:
  "mix_master mix = Some m \<Longrightarrow>
   gst_videomixer_update_queues mix = Some (update_queues_state mix)"
  by (simp add: gst_videomixer_update_queues_def update_queues_state_def)

lemma update_queues_walk_result:
  "distinct ids \<Longrightarrow>
   update_queues_walk interval ids pads i
     = (if i \<in> set ids then update_queues_pad interval (pads i) else pads i)"
proof (induction ids arbitrary: pads)
  case Nil
  then show ?case by simp
next
  case (Cons w ids)
  then show ?case by auto
qed

lemma update_queues_pad_held:
  assumes "pad_buffer pad \<noteq> None"
  shows "pad_queued (update_queues_pad interval pad) = pad_queued pad - interval"
    and "pad_queued pad - interval \<le>s 0 \<Longrightarrow>
           pad_buffer (update_queues_pad interval pad) = None
           \<and> pad_collect_buffer (update_queues_pad interval pad) = None"
    and "\<not> pad_queued pad - interval \<le>s 0 \<Longrightarrow>
           pad_buffer (update_queues_pad interval pad) = pad_buffer pad
           \<and> pad_collect_buffer (update_queues_pad interval pad) = pad_collect_buffer pad"
  using assms by (simp_all add: update_queues_pad_def Let_def)

lemma update_queues_pad_empty:
  "pad_buffer pad = None \<Longrightarrow> update_queues_pad interval pad = pad"
  by (simp add: update_queues_pad_def)

lemma update_queues_interval_eq:
  "update_queues_interval mix master
     = (if 0 <s pad_queued (mix_pads mix master) then pad_queued (mix_pads mix master)
        else if mix_fps_n mix = 0 then G_MAXINT64
        else gst_util_uint64_scale_int GST_SECOND (mix_fps_d mix) (mix_fps_n mix))"
  by (auto simp: update_queues_interval_def Let_def word_sle_eq word_sless_alt)


section \<open>What a cycle hands to the source pad\<close>

lemma quiet_not_frame: "quiet e \<Longrightarrow> \<not> is_frame e \<and> e \<noteq> EvEOS"
  by (cases e) auto

lemma list_all_quiet:
  "list_all quiet evs \<Longrightarrow> \<not> list_ex is_frame evs \<and> EvEOS \<notin> set evs"
  by (induction evs) (auto dest: quiet_not_frame)

lemma quiet_frames: "list_all quiet evs \<Longrightarrow> PushBuffer ts dur bg layers \<notin> set evs"
  by (induction evs) auto

text \<open>
  The cases of a cycle of a negotiated mixer: end of stream; no master; frame dropped;
  no blend function; no output buffer; frame pushed.
\<close>

lemma collected_cases:
  assumes "mix_in_width mix \<noteq> 0"
    and "gst_videomixer_collected core alloc_ret push_ret mix = (out, mix')"
  obtains
    (eos) "fst (cycle_fill core mix)" "out = Returned GST_FLOW_WRONG_STATE"
      "mix' = (snd (cycle_fill core mix))
                \<lparr>mix_srcpad := mix_srcpad (snd (cycle_fill core mix)) @ [EvEOS]\<rparr>"
  | (no_master) "\<not> fst (cycle_fill core mix)" "mix_master mix = None" "out = Aborted"
      "mix' = collected_caps (snd (cycle_fill core mix))"
  | (drop) m where "\<not> fst (cycle_fill core mix)" "mix_master mix = Some m"
      "\<not> gst_videomixer_do_qos core (cycle_derived core mix m) (cycle_timestamp core mix m)"
      "out = Returned GST_FLOW_OK" "mix' = update_queues_state (cycle_derived core mix m)"
  | (no_blend) m where "\<not> fst (cycle_fill core mix)" "mix_master mix = Some m"
      "gst_videomixer_do_qos core (cycle_derived core mix m) (cycle_timestamp core mix m)"
      "out = Aborted" "mix' = cycle_derived core mix m"
  | (alloc_failed) m where "\<not> fst (cycle_fill core mix)" "mix_master mix = Some m"
      "gst_videomixer_do_qos core (cycle_derived core mix m) (cycle_timestamp core mix m)"
      "out = Returned alloc_ret" "mix' = cycle_derived core mix m"
  | (push) m where "\<not> fst (cycle_fill core mix)" "mix_master mix = Some m"
      "gst_videomixer_do_qos core (cycle_derived core mix m) (cycle_timestamp core mix m)"
      "out = Returned push_ret"
      "mix' = (update_queues_state (cycle_derived core mix m))
                \<lparr>mix_srcpad := mix_srcpad (update_queues_state (cycle_derived core mix m))
                   @ [PushBuffer (cycle_timestamp core mix m) (cycle_duration core mix m)
                        (mix_background (cycle_derived core mix m))
                        (gst_videomixer_blend_buffers (cycle_derived core mix m))]\<rparr>"
proof (cases "fst (cycle_fill core mix)")
  case True
  then show ?thesis using assms(2) eos unfolding collected_unfold [OF assms(1)] by simp
next
  case neos: False
  show ?thesis
  proof (cases "mix_master mix")
    case None
    then show ?thesis
      using assms(2) neos no_master unfolding collected_unfold [OF assms(1)] by simp
  next
    case (Some m)
    have u: "gst_videomixer_update_queues (cycle_derived core mix m)
             = Some (update_queues_state (cycle_derived core mix m))"
      using Some by (intro update_queues_state_eq [of _ m]) (simp add: cycle_derived_keeps)
    show ?thesis
      using assms(2) neos Some drop [of m] no_blend [of m] alloc_failed [of m] push [of m]
      unfolding collected_unfold [OF assms(1)]
      by (auto simp: u split: if_splits)
  qed
qed

lemma update_queues_state_srcpad:
  "mix_master mix = Some m \<Longrightarrow> mix_srcpad (update_queues_state mix) = mix_srcpad mix"
  using update_queues_keeps(1) [OF update_queues_state_eq] by blast

lemma emitted_quiet:
  "mix_srcpad mix' = mix_srcpad mix @ evs \<Longrightarrow> list_all quiet evs
   \<Longrightarrow> list_all quiet (emitted mix mix')"
  by (simp add: emitted_def)

text \<open>
  What a cycle of a negotiated mixer emits: quiet items, then the end-of-stream event when
  the fill raised the flag, else nothing more or one output frame.
\<close>

lemma collected_emitted:
  assumes "mix_in_width mix \<noteq> 0"
    and "gst_videomixer_collected core alloc_ret push_ret mix = (out, mix')"
  shows "\<exists>evs. list_all quiet evs
          \<and> (if fst (cycle_fill core mix)
              then emitted mix mix' = evs @ [EvEOS] \<and> out = Returned GST_FLOW_WRONG_STATE
              else emitted mix mix' = evs
                   \<or> (\<exists>m. mix_master mix = Some m
                          \<and> gst_videomixer_do_qos core (cycle_derived core mix m)
                              (cycle_timestamp core mix m)
                          \<and> mix' = (update_queues_state (cycle_derived core mix m))
                               \<lparr>mix_srcpad :=
                                  mix_srcpad (update_queues_state (cycle_derived core mix m))
                                  @ [PushBuffer (cycle_timestamp core mix m)
                                       (cycle_duration core mix m)
                                       (mix_background (cycle_derived core mix m))
                                       (gst_videomixer_blend_buffers
                                          (cycle_derived core mix m))]\<rparr>
                          \<and> emitted mix mix'
                              = evs @ [PushBuffer (cycle_timestamp core mix m)
                                         (cycle_duration core mix m)
                                         (mix_background (cycle_derived core mix m))
                                         (gst_videomixer_blend_buffers
                                            (cycle_derived core mix m))]))"
  using assms
proof (cases rule: collected_cases)
  case eos
  obtain evs where "mix_srcpad (snd (cycle_fill core mix)) = mix_srcpad mix @ evs"
      "list_all quiet evs"
    using cycle_fill_srcpad by blast
  then show ?thesis using eos by (intro exI [of _ evs]) (simp add: emitted_def)
next
  case no_master
  obtain evs1 where e1: "mix_srcpad (snd (cycle_fill core mix)) = mix_srcpad mix @ evs1"
      "list_all quiet evs1"
    using cycle_fill_srcpad by blast
  obtain evs2 where e2: "mix_srcpad (collected_caps (snd (cycle_fill core mix)))
        = mix_srcpad (snd (cycle_fill core mix)) @ evs2" "list_all quiet evs2"
    using collected_caps_srcpad by blast
  show ?thesis
    using no_master e1 e2 by (intro exI [of _ "evs1 @ evs2"]) (simp add: emitted_def)
next
  case (drop m)
  obtain evs where e: "mix_srcpad (cycle_derived core mix m) = mix_srcpad mix @ evs"
      "list_all quiet evs"
    using cycle_derived_srcpad by blast
  have "mix_srcpad mix' = mix_srcpad mix @ evs"
    using drop e update_queues_state_srcpad [of "cycle_derived core mix m" m]
    by (simp add: cycle_derived_keeps)
  then show ?thesis using drop e(2) by (intro exI [of _ evs]) (simp add: emitted_def)
next
  case (no_blend m)
  obtain evs where e: "mix_srcpad (cycle_derived core mix m) = mix_srcpad mix @ evs"
      "list_all quiet evs"
    using cycle_derived_srcpad by blast
  then show ?thesis using no_blend by (intro exI [of _ evs]) (simp add: emitted_def)
next
  case (alloc_failed m)
  obtain evs where e: "mix_srcpad (cycle_derived core mix m) = mix_srcpad mix @ evs"
      "list_all quiet evs"
    using cycle_derived_srcpad by blast
  then show ?thesis using alloc_failed by (intro exI [of _ evs]) (simp add: emitted_def)
next
  case (push m)
  obtain evs where e: "mix_srcpad (cycle_derived core mix m) = mix_srcpad mix @ evs"
      "list_all quiet evs"
    using cycle_derived_srcpad by blast
  have "mix_srcpad (update_queues_state (cycle_derived core mix m)) = mix_srcpad mix @ evs"
    using push e update_queues_state_srcpad [of "cycle_derived core mix m" m]
    by (simp add: cycle_derived_keeps)
  then show ?thesis
    using push e(2) by (intro exI [of _ evs]) (auto simp: emitted_def)
qed

text \<open>The state a cycle leaves, once it has derived its timestamp.\<close>

lemma collected_last:
  assumes "mix_in_width mix \<noteq> 0" and "\<not> fst (cycle_fill core mix)"
    and "mix_master mix = Some m"
  shows "mix_last_ts (snd (gst_videomixer_collected core alloc_ret push_ret mix))
         = mix_last_ts (cycle_derived core mix m)"
    and "mix_last_duration (snd (gst_videomixer_collected core alloc_ret push_ret mix))
         = mix_last_duration (cycle_derived core mix m)"
proof -
  obtain out mix' where c: "gst_videomixer_collected core alloc_ret push_ret mix = (out, mix')"
    by (cases "gst_videomixer_collected core alloc_ret push_ret mix")
  have u: "gst_videomixer_update_queues (cycle_derived core mix m)
             = Some (update_queues_state (cycle_derived core mix m))"
    using assms(3) by (intro update_queues_state_eq [of _ m]) (simp add: cycle_derived_keeps)
  have "mix_last_ts mix' = mix_last_ts (cycle_derived core mix m)
        \<and> mix_last_duration mix' = mix_last_duration (cycle_derived core mix m)"
    using assms(1) c
  proof (cases rule: collected_cases)
    case eos
    then show ?thesis using assms(2) by simp
  next
    case no_master
    then show ?thesis using assms(3) by simp
  next
    case (drop m')
    then show ?thesis using assms(3) update_queues_keeps(2,3) [OF u] by simp
  next
    case (no_blend m')
    then show ?thesis using assms(3) by simp
  next
    case (alloc_failed m')
    then show ?thesis using assms(3) by simp
  next
    case (push m')
    then show ?thesis using assms(3) update_queues_keeps(2,3) [OF u] by simp
  qed
  then show "mix_last_ts (snd (gst_videomixer_collected core alloc_ret push_ret mix))
         = mix_last_ts (cycle_derived core mix m)"
    and "mix_last_duration (snd (gst_videomixer_collected core alloc_ret push_ret mix))
         = mix_last_duration (cycle_derived core mix m)"
    using c by simp_all
qed

section \<open>C2: end of stream\<close>

text \<open>
  C2, as the code has it.  In a cycle of a negotiated mixer (\<open>in_width\<close> not 0) each port
  first tries to fetch a frame.  The end-of-stream event goes downstream exactly when after
  that no port both holds a frame and has a valid counter (one that is not
  \<open>GST_CLOCK_TIME_NONE\<close>), that is when every port holds no frame \<^emph>\<open>or\<close> has an invalid
  counter; and then the cycle returns \<open>GST_FLOW_WRONG_STATE\<close> and hands no output frame
  downstream.
\<close>

theorem C2_eos_iff_no_port_has_data:
  assumes "mix_in_width mix \<noteq> 0"
  shows "(EvEOS \<in> set (emitted mix (snd (gst_videomixer_collected core alloc_ret push_ret mix)))
          \<longleftrightarrow> (\<forall>i\<in>set (mix_collect_data mix).
                 \<not> pad_has_data (fill_queues_fetch (mix_pads mix i))))
       \<and> (EvEOS \<in> set (emitted mix (snd (gst_videomixer_collected core alloc_ret push_ret mix)))
          \<longrightarrow> fst (gst_videomixer_collected core alloc_ret push_ret mix)
                = Returned GST_FLOW_WRONG_STATE
              \<and> \<not> list_ex is_frame
                    (emitted mix (snd (gst_videomixer_collected core alloc_ret push_ret mix))))"
proof -
  obtain out mix' where c: "gst_videomixer_collected core alloc_ret push_ret mix = (out, mix')"
    by (cases "gst_videomixer_collected core alloc_ret push_ret mix")
  obtain evs where q: "list_all quiet evs"
    and e: "if fst (cycle_fill core mix)
            then emitted mix mix' = evs @ [EvEOS] \<and> out = Returned GST_FLOW_WRONG_STATE
            else emitted mix mix' = evs
                 \<or> (\<exists>ts dur bg layers. emitted mix mix' = evs @ [PushBuffer ts dur bg layers])"
    using collected_emitted [OF assms c] by (auto split: if_splits)
  have n: "\<not> list_ex is_frame evs" "EvEOS \<notin> set evs"
    using list_all_quiet [OF q] by simp_all
  show ?thesis
  proof (cases "fst (cycle_fill core mix)")
    case True
    then show ?thesis using e n c by (auto simp: cycle_fill_eos)
  next
    case False
    then have "EvEOS \<notin> set (emitted mix mix')" using e n by auto
    then show ?thesis using False c by (simp add: cycle_fill_eos)
  qed
qed

theorem C2_eos_iff_no_port_has_data_witness:
  "mix_in_width example_negotiated \<noteq> 0
   \<and> mix_collect_data example_negotiated = [0, 1]
   \<and> \<not> pad_has_data (fill_queues_fetch (mix_pads example_negotiated 0))
   \<and> \<not> pad_has_data (fill_queues_fetch (mix_pads example_negotiated 1))
   \<and> EvEOS \<in> set (emitted example_negotiated
                     (snd (gst_videomixer_collected example_core GST_FLOW_OK GST_FLOW_OK
                             example_negotiated)))
   \<and> fst (gst_videomixer_collected example_core GST_FLOW_OK GST_FLOW_OK example_negotiated)
       = Returned GST_FLOW_WRONG_STATE
   \<and> \<not> list_ex is_frame
         (emitted example_negotiated
            (snd (gst_videomixer_collected example_core GST_FLOW_OK GST_FLOW_OK
                    example_negotiated)))
   \<and> mix_in_width example_streaming \<noteq> 0
   \<and> 0 \<in> set (mix_collect_data example_streaming)
   \<and> pad_has_data (fill_queues_fetch (mix_pads example_streaming 0))
   \<and> EvEOS \<notin> set (emitted example_streaming
                     (snd (gst_videomixer_collected example_core GST_FLOW_OK GST_FLOW_OK
                             example_streaming)))"
proof -
  have w1: "mix_in_width example_negotiated \<noteq> 0" by code_simp
  have l1: "mix_collect_data example_negotiated = [0, 1]" by code_simp
  have n0: "\<not> pad_has_data (fill_queues_fetch (mix_pads example_negotiated 0))" by code_simp
  have n1: "\<not> pad_has_data (fill_queues_fetch (mix_pads example_negotiated 1))" by code_simp
  have all: "\<forall>i\<in>set (mix_collect_data example_negotiated).
               \<not> pad_has_data (fill_queues_fetch (mix_pads example_negotiated i))"
    unfolding l1 using n0 n1 by simp
  have w2: "mix_in_width example_streaming \<noteq> 0" by code_simp
  have l2: "0 \<in> set (mix_collect_data example_streaming)" by code_simp
  have d0: "pad_has_data (fill_queues_fetch (mix_pads example_streaming 0))" by code_simp
  have some: "\<not> (\<forall>i\<in>set (mix_collect_data example_streaming).
               \<not> pad_has_data (fill_queues_fetch (mix_pads example_streaming i)))"
    using l2 d0 by blast
  show ?thesis
    using w1 l1 n0 n1 w2 l2 d0 all some
      C2_eos_iff_no_port_has_data [OF w1, of example_core GST_FLOW_OK GST_FLOW_OK]
      C2_eos_iff_no_port_has_data [OF w2, of example_core GST_FLOW_OK GST_FLOW_OK]
    by blast
qed

text \<open>
  The claim lets a port that holds a frame keep the stream alive.  The still-image mixer
  has one port; the cycle fetches its frame, which has no duration, and since the port's
  rate is 0/1 the counter becomes \<open>GST_CLOCK_TIME_NONE\<close>.  The port holds a frame, and the
  cycle declares end of stream.
\<close>

theorem C2_held_frame_counterexample:
  "mix_collect_data example_still = [0]
   \<and> pad_buffer (mix_pads (snd (cycle_fill example_core example_still)) 0)
       = Some (example_frame 0 GST_CLOCK_TIME_NONE)
   \<and> pad_queued (mix_pads (snd (cycle_fill example_core example_still)) 0)
       = GST_CLOCK_TIME_NONE
   \<and> fst (gst_videomixer_collected example_core GST_FLOW_OK GST_FLOW_OK example_still)
       = Returned GST_FLOW_WRONG_STATE
   \<and> emitted example_still
        (snd (gst_videomixer_collected example_core GST_FLOW_OK GST_FLOW_OK example_still))
       = [EvNewSegment False 1 1 GST_FORMAT_TIME 0 (- 1) 0, EvEOS]"
  by code_simp

section \<open>C6: the QoS decision\<close>



section \<open>C10: the last output timestamp\<close>

text \<open>
  C10.  Take a cycle of a negotiated mixer that is not at end of stream.  With a master,
  the cycle derives a timestamp and a duration (from the master's frame when it holds one,
  else the mixer's \<open>last_ts\<close> and \<open>last_duration\<close>), and the state on which the QoS
  decision is taken already has \<open>last_ts\<close> at the derived timestamp plus the derived
  duration when that duration is valid (at the derived timestamp otherwise).  The cycle
  ends with that \<open>last_ts\<close> whatever happens next; in particular when the decision is to
  drop the frame, where the cycle returns \<open>GST_FLOW_OK\<close> without an output frame.
  Without a master the process stops at \<open>mix->master->mixcol\<close>.
\<close>

theorem C10_last_ts_advances_before_qos:
  assumes "mix_in_width mix \<noteq> 0" and "\<not> fst (cycle_fill core mix)"
  shows "case mix_master mix of
           None \<Rightarrow> fst (gst_videomixer_collected core alloc_ret push_ret mix) = Aborted
         | Some m \<Rightarrow>
             cycle_timestamp core mix m
               = (case pad_buffer (mix_pads (snd (cycle_fill core mix)) m) of
                    Some buffer \<Rightarrow>
                      gst_segment_to_running_time core
                        (pad_segment (mix_pads (snd (cycle_fill core mix)) m)) GST_FORMAT_TIME
                        (buf_timestamp buffer)
                  | None \<Rightarrow> mix_last_ts mix)
             \<and> cycle_duration core mix m
                 = (case pad_buffer (mix_pads (snd (cycle_fill core mix)) m) of
                      Some buffer \<Rightarrow> buf_duration buffer
                    | None \<Rightarrow> mix_last_duration mix)
             \<and> mix_last_ts (cycle_derived core mix m)
                 = (if GST_CLOCK_TIME_IS_VALID (cycle_duration core mix m)
                    then cycle_timestamp core mix m + cycle_duration core mix m
                    else cycle_timestamp core mix m)
             \<and> mix_last_ts (snd (gst_videomixer_collected core alloc_ret push_ret mix))
                 = mix_last_ts (cycle_derived core mix m)
             \<and> (\<not> gst_videomixer_do_qos core (cycle_derived core mix m)
                      (cycle_timestamp core mix m)
                  \<longrightarrow> fst (gst_videomixer_collected core alloc_ret push_ret mix)
                        = Returned GST_FLOW_OK
                      \<and> \<not> list_ex is_frame
                            (emitted mix
                               (snd (gst_videomixer_collected core alloc_ret push_ret mix))))"
proof (cases "mix_master mix")
  case None
  then show ?thesis using assms by (simp add: collected_unfold)
next
  case (Some m)
  obtain out mix' where c: "gst_videomixer_collected core alloc_ret push_ret mix = (out, mix')"
    by (cases "gst_videomixer_collected core alloc_ret push_ret mix")
  have u: "gst_videomixer_update_queues (cycle_derived core mix m)
             = Some (update_queues_state (cycle_derived core mix m))"
    using Some by (intro update_queues_state_eq [of _ m]) (simp add: cycle_derived_keeps)
  have "out = Returned GST_FLOW_OK \<and> \<not> list_ex is_frame (emitted mix mix')"
    if n: "\<not> gst_videomixer_do_qos core (cycle_derived core mix m) (cycle_timestamp core mix m)"
  proof -
    have o: "out = Returned GST_FLOW_OK"
      using c assms Some n u by (simp add: collected_unfold)
    obtain evs where e: "list_all quiet evs"
      "emitted mix mix' = evs
       \<or> (\<exists>m'. mix_master mix = Some m'
              \<and> gst_videomixer_do_qos core (cycle_derived core mix m')
                  (cycle_timestamp core mix m'))"
      using collected_emitted [OF assms(1) c] assms(2) by auto
    have "emitted mix mix' = evs" using e(2) Some n by auto
    then show ?thesis using o list_all_quiet [OF e(1)] by simp
  qed
  then show ?thesis
    using Some c collected_last(1) [OF assms Some, of alloc_ret push_ret]
      cycle_derived_last(1) [of core mix m] cycle_times [of core mix m]
    by simp
qed

theorem C10_last_ts_advances_before_qos_witness:
  "mix_in_width example_late \<noteq> 0 \<and> \<not> fst (cycle_fill example_core example_late)
   \<and> mix_master example_late = Some 0
   \<and> \<not> gst_videomixer_do_qos example_core (cycle_derived example_core example_late 0)
         (cycle_timestamp example_core example_late 0)
   \<and> mix_last_ts example_late = 0
   \<and> cycle_timestamp example_core example_late 0 = 0
   \<and> cycle_duration example_core example_late 0 = 100000000
   \<and> mix_last_ts (cycle_derived example_core example_late 0) = 100000000
   \<and> mix_last_ts
        (snd (gst_videomixer_collected example_core GST_FLOW_OK GST_FLOW_OK example_late))
       = 100000000
   \<and> fst (gst_videomixer_collected example_core GST_FLOW_OK GST_FLOW_OK example_late)
       = Returned GST_FLOW_OK
   \<and> \<not> list_ex is_frame
         (emitted example_late
            (snd (gst_videomixer_collected example_core GST_FLOW_OK GST_FLOW_OK example_late)))
   \<and> mix_in_width example_streaming \<noteq> 0
   \<and> \<not> fst (cycle_fill example_core example_streaming)
   \<and> mix_master example_streaming = Some 0
   \<and> \<not> mix_blend example_streaming
   \<and> gst_videomixer_do_qos example_core (cycle_derived example_core example_streaming 0)
         (cycle_timestamp example_core example_streaming 0)
   \<and> fst (gst_videomixer_collected example_core GST_FLOW_OK GST_FLOW_OK example_streaming)
       = Returned GST_FLOW_OK
   \<and> list_ex is_frame
         (emitted example_streaming
            (snd (gst_videomixer_collected example_core GST_FLOW_OK GST_FLOW_OK
                    example_streaming)))
   \<and> mix_last_ts example_streaming = 0
   \<and> cycle_timestamp example_core example_streaming 0 = 0
   \<and> cycle_duration example_core example_streaming 0 = 100000000
   \<and> mix_last_ts (cycle_derived example_core example_streaming 0) = 100000000
   \<and> mix_last_ts
        (snd (gst_videomixer_collected example_core GST_FLOW_OK GST_FLOW_OK example_streaming))
       = 100000000"
proof -
  have h1: "mix_in_width example_late \<noteq> 0" by code_simp
  have h2: "\<not> fst (cycle_fill example_core example_late)" by code_simp
  have m: "mix_master example_late = Some 0" by code_simp
  have q: "\<not> gst_videomixer_do_qos example_core (cycle_derived example_core example_late 0)
         (cycle_timestamp example_core example_late 0)"
    by code_simp
  have v: "mix_last_ts example_late = 0" "cycle_timestamp example_core example_late 0 = 0"
    "cycle_duration example_core example_late 0 = 100000000"
    "GST_CLOCK_TIME_IS_VALID (100000000 :: GstClockTime)"
    by code_simp+
  have k1: "mix_in_width example_streaming \<noteq> 0" by code_simp
  have k2: "\<not> fst (cycle_fill example_core example_streaming)" by code_simp
  have n: "mix_master example_streaming = Some 0" by code_simp
  have f: "\<not> mix_blend example_streaming"
    "gst_videomixer_do_qos example_core (cycle_derived example_core example_streaming 0)
         (cycle_timestamp example_core example_streaming 0)"
    "fst (gst_videomixer_collected example_core GST_FLOW_OK GST_FLOW_OK example_streaming)
       = Returned GST_FLOW_OK"
    "list_ex is_frame
         (emitted example_streaming
            (snd (gst_videomixer_collected example_core GST_FLOW_OK GST_FLOW_OK
                    example_streaming)))"
    by code_simp+
  have w: "mix_last_ts example_streaming = 0"
    "cycle_timestamp example_core example_streaming 0 = 0"
    "cycle_duration example_core example_streaming 0 = 100000000"
    by code_simp+
  have a: "mix_last_ts (cycle_derived example_core example_late 0) = 100000000
     \<and> mix_last_ts
          (snd (gst_videomixer_collected example_core GST_FLOW_OK GST_FLOW_OK example_late))
         = 100000000
     \<and> fst (gst_videomixer_collected example_core GST_FLOW_OK GST_FLOW_OK example_late)
         = Returned GST_FLOW_OK
     \<and> \<not> list_ex is_frame
           (emitted example_late
              (snd (gst_videomixer_collected example_core GST_FLOW_OK GST_FLOW_OK
                      example_late)))"
    using C10_last_ts_advances_before_qos [OF h1 h2, of GST_FLOW_OK GST_FLOW_OK] m q v
    by simp
  have b: "mix_last_ts (cycle_derived example_core example_streaming 0) = 100000000
     \<and> mix_last_ts
          (snd (gst_videomixer_collected example_core GST_FLOW_OK GST_FLOW_OK
                  example_streaming))
         = 100000000"
    using C10_last_ts_advances_before_qos [OF k1 k2, of GST_FLOW_OK GST_FLOW_OK] n w v(4)
    by simp
  show ?thesis
    using h1 h2 m q v(1,2,3) k1 k2 n f w a b by blast
qed

section \<open>C3: timestamp and duration of the output frame\<close>

text \<open>
  C3, as the code has it.  For the output frame of a cycle: when the master holds a frame
  after the fill, the frame's timestamp is the master frame's timestamp mapped to running
  time through the master's segment and its duration is the master frame's duration; when
  the master holds none, timestamp and duration are the mixer's \<open>last_ts\<close> and
  \<open>last_duration\<close>.  Either way the cycle leaves \<open>last_duration\<close> at the emitted duration
  and \<open>last_ts\<close> at the emitted timestamp plus that duration when it is valid.  And when
  the master holds none and \<open>last_ts\<close> and \<open>last_duration\<close> are as an earlier cycle left
  them, a cycle that derived the timestamp \<open>T\<close> and the duration \<open>D\<close> (whether it pushed
  its frame, dropped it or failed to allocate it), then the emitted duration is \<open>D\<close> and
  the emitted timestamp is \<open>T + D\<close> for a valid \<open>D\<close> (\<open>T\<close> otherwise): during a master stall
  the timestamp advances, it is not held.
\<close>

theorem C3_output_times:
  assumes "mix_in_width mix \<noteq> 0"
    and "PushBuffer ts dur bg layers
           \<in> set (emitted mix (snd (gst_videomixer_collected core alloc_ret push_ret mix)))"
  shows "\<exists>m. mix_master mix = Some m
          \<and> (case pad_buffer (mix_pads (snd (cycle_fill core mix)) m) of
                Some buffer \<Rightarrow>
                  ts = gst_segment_to_running_time core
                         (pad_segment (mix_pads (snd (cycle_fill core mix)) m)) GST_FORMAT_TIME
                         (buf_timestamp buffer)
                  \<and> dur = buf_duration buffer
              | None \<Rightarrow> ts = mix_last_ts mix \<and> dur = mix_last_duration mix)
          \<and> mix_last_duration (snd (gst_videomixer_collected core alloc_ret push_ret mix))
              = dur
          \<and> mix_last_ts (snd (gst_videomixer_collected core alloc_ret push_ret mix))
              = (if GST_CLOCK_TIME_IS_VALID dur then ts + dur else ts)
          \<and> (\<forall>prev alloc_ret0 push_ret0 m0.
                mix_in_width prev \<noteq> 0 \<and> \<not> fst (cycle_fill core prev)
                \<and> mix_master prev = Some m0
                \<and> mix_last_ts mix
                    = mix_last_ts (snd (gst_videomixer_collected core alloc_ret0 push_ret0 prev))
                \<and> mix_last_duration mix
                    = mix_last_duration
                        (snd (gst_videomixer_collected core alloc_ret0 push_ret0 prev))
                \<and> pad_buffer (mix_pads (snd (cycle_fill core mix)) m) = None
                \<longrightarrow> dur = cycle_duration core prev m0
                    \<and> ts = (if GST_CLOCK_TIME_IS_VALID (cycle_duration core prev m0)
                            then cycle_timestamp core prev m0 + cycle_duration core prev m0
                            else cycle_timestamp core prev m0))"
proof -
  obtain out mix' where c: "gst_videomixer_collected core alloc_ret push_ret mix = (out, mix')"
    by (cases "gst_videomixer_collected core alloc_ret push_ret mix")
  have f: "PushBuffer ts dur bg layers \<in> set (emitted mix mix')"
    using assms(2) c by simp
  obtain evs where q: "list_all quiet evs"
    and e: "if fst (cycle_fill core mix)
            then emitted mix mix' = evs @ [EvEOS]
            else emitted mix mix' = evs
                 \<or> (\<exists>m. mix_master mix = Some m
                        \<and> emitted mix mix'
                            = evs @ [PushBuffer (cycle_timestamp core mix m)
                                       (cycle_duration core mix m)
                                       (mix_background (cycle_derived core mix m))
                                       (gst_videomixer_blend_buffers
                                          (cycle_derived core mix m))])"
    using collected_emitted [OF assms(1) c] by (auto split: if_splits)
  have neos: "\<not> fst (cycle_fill core mix)"
    using e f quiet_frames [OF q] by (auto split: if_splits)
  then obtain m where m: "mix_master mix = Some m"
    and p: "emitted mix mix'
              = evs @ [PushBuffer (cycle_timestamp core mix m) (cycle_duration core mix m)
                         (mix_background (cycle_derived core mix m))
                         (gst_videomixer_blend_buffers (cycle_derived core mix m))]"
    using e f quiet_frames [OF q] by auto
  have td: "ts = cycle_timestamp core mix m" "dur = cycle_duration core mix m"
    using f quiet_frames [OF q] unfolding p by auto
  have l: "mix_last_ts mix' = mix_last_ts (cycle_derived core mix m)"
      "mix_last_duration mix' = mix_last_duration (cycle_derived core mix m)"
    using collected_last [OF assms(1) neos m, of alloc_ret push_ret] c by simp_all
  have x: "dur = cycle_duration core prev m0
           \<and> ts = (if GST_CLOCK_TIME_IS_VALID (cycle_duration core prev m0)
                   then cycle_timestamp core prev m0 + cycle_duration core prev m0
                   else cycle_timestamp core prev m0)"
    if "mix_in_width prev \<noteq> 0" "\<not> fst (cycle_fill core prev)" "mix_master prev = Some m0"
      "mix_last_ts mix
         = mix_last_ts (snd (gst_videomixer_collected core alloc_ret0 push_ret0 prev))"
      "mix_last_duration mix
         = mix_last_duration (snd (gst_videomixer_collected core alloc_ret0 push_ret0 prev))"
      "pad_buffer (mix_pads (snd (cycle_fill core mix)) m) = None"
    for prev alloc_ret0 push_ret0 m0
    using that td collected_last [OF that(1,2,3), of alloc_ret0 push_ret0]
      cycle_derived_last [of core prev m0] cycle_times [of core mix m]
    by simp
  have y: "case pad_buffer (mix_pads (snd (cycle_fill core mix)) m) of
                Some buffer \<Rightarrow>
                  ts = gst_segment_to_running_time core
                         (pad_segment (mix_pads (snd (cycle_fill core mix)) m)) GST_FORMAT_TIME
                         (buf_timestamp buffer)
                  \<and> dur = buf_duration buffer
              | None \<Rightarrow> ts = mix_last_ts mix \<and> dur = mix_last_duration mix"
    using td by (simp add: cycle_times split: option.splits)
  have z: "mix_last_duration mix' = dur"
    "mix_last_ts mix' = (if GST_CLOCK_TIME_IS_VALID dur then ts + dur else ts)"
    using l td by (simp_all add: cycle_derived_last)
  show ?thesis
    using m x y z c by (intro exI [of _ m]) simp
qed

theorem C3_output_times_witness:
  "mix_in_width example_streaming \<noteq> 0
   \<and> PushBuffer 0 100000000 VIDEO_MIXER_BACKGROUND_CHECKER [0, 1]
       \<in> set (emitted example_streaming
                (snd (gst_videomixer_collected example_core GST_FLOW_OK GST_FLOW_OK
                        example_streaming)))
   \<and> mix_master example_streaming = Some 0
   \<and> \<not> mix_blend example_streaming
   \<and> pad_buffer (mix_pads (snd (cycle_fill example_core example_streaming)) 0)
       = Some (example_frame 0 100000000)
   \<and> gst_segment_to_running_time example_core
         (pad_segment (mix_pads (snd (cycle_fill example_core example_streaming)) 0))
         GST_FORMAT_TIME (buf_timestamp (example_frame 0 100000000)) = 0
   \<and> buf_duration (example_frame 0 100000000) = 100000000
   \<and> mix_last_duration
        (snd (gst_videomixer_collected example_core GST_FLOW_OK GST_FLOW_OK example_streaming))
       = 100000000
   \<and> mix_last_ts
        (snd (gst_videomixer_collected example_core GST_FLOW_OK GST_FLOW_OK example_streaming))
       = 100000000
   \<and> mix_in_width example_after_drop \<noteq> 0
   \<and> PushBuffer 100000000 100000000 VIDEO_MIXER_BACKGROUND_CHECKER [1]
       \<in> set (emitted example_after_drop
                (snd (gst_videomixer_collected example_core GST_FLOW_OK GST_FLOW_OK
                        example_after_drop)))
   \<and> mix_master example_after_drop = Some 0
   \<and> pad_buffer (mix_pads (snd (cycle_fill example_core example_after_drop)) 0) = None
   \<and> mix_in_width example_late \<noteq> 0 \<and> \<not> fst (cycle_fill example_core example_late)
   \<and> mix_master example_late = Some 0
   \<and> \<not> list_ex is_frame
         (emitted example_late
            (snd (gst_videomixer_collected example_core GST_FLOW_OK GST_FLOW_OK example_late)))
   \<and> mix_last_ts example_after_drop
       = mix_last_ts
           (snd (gst_videomixer_collected example_core GST_FLOW_OK GST_FLOW_OK example_late))
   \<and> mix_last_duration example_after_drop
       = mix_last_duration
           (snd (gst_videomixer_collected example_core GST_FLOW_OK GST_FLOW_OK example_late))
   \<and> mix_last_ts example_after_drop = 100000000
   \<and> mix_last_duration example_after_drop = 100000000
   \<and> cycle_timestamp example_core example_late 0 = 0
   \<and> cycle_duration example_core example_late 0 = 100000000
   \<and> mix_last_duration
        (snd (gst_videomixer_collected example_core GST_FLOW_OK GST_FLOW_OK example_after_drop))
       = 100000000
   \<and> mix_last_ts
        (snd (gst_videomixer_collected example_core GST_FLOW_OK GST_FLOW_OK example_after_drop))
       = 200000000"
proof -
  have h1: "mix_in_width example_streaming \<noteq> 0" by code_simp
  have h2: "PushBuffer 0 100000000 VIDEO_MIXER_BACKGROUND_CHECKER [0, 1]
       \<in> set (emitted example_streaming
                (snd (gst_videomixer_collected example_core GST_FLOW_OK GST_FLOW_OK
                        example_streaming)))"
    by code_simp
  have m: "mix_master example_streaming = Some 0" by code_simp
  have nb: "\<not> mix_blend example_streaming" by code_simp
  have b: "pad_buffer (mix_pads (snd (cycle_fill example_core example_streaming)) 0)
       = Some (example_frame 0 100000000)"
    by code_simp
  have v: "GST_CLOCK_TIME_IS_VALID (100000000 :: GstClockTime)" by code_simp
  have r1: "gst_segment_to_running_time example_core
         (pad_segment (mix_pads (snd (cycle_fill example_core example_streaming)) 0))
         GST_FORMAT_TIME (buf_timestamp (example_frame 0 100000000)) = 0
     \<and> buf_duration (example_frame 0 100000000) = 100000000
     \<and> mix_last_duration
          (snd (gst_videomixer_collected example_core GST_FLOW_OK GST_FLOW_OK
                  example_streaming))
         = 100000000
     \<and> mix_last_ts
          (snd (gst_videomixer_collected example_core GST_FLOW_OK GST_FLOW_OK
                  example_streaming))
         = 100000000"
    using C3_output_times [OF h1 h2] m b v by auto
  have k1: "mix_in_width example_after_drop \<noteq> 0" by code_simp
  have k2: "PushBuffer 100000000 100000000 VIDEO_MIXER_BACKGROUND_CHECKER [1]
       \<in> set (emitted example_after_drop
                (snd (gst_videomixer_collected example_core GST_FLOW_OK GST_FLOW_OK
                        example_after_drop)))"
    by code_simp
  have n: "mix_master example_after_drop = Some 0" by code_simp
  have e: "pad_buffer (mix_pads (snd (cycle_fill example_core example_after_drop)) 0) = None"
    by code_simp
  have p: "mix_in_width example_late \<noteq> 0" "\<not> fst (cycle_fill example_core example_late)"
    "mix_master example_late = Some 0"
    "\<not> list_ex is_frame
         (emitted example_late
            (snd (gst_videomixer_collected example_core GST_FLOW_OK GST_FLOW_OK example_late)))"
    by code_simp+
  have s: "mix_last_ts example_after_drop
       = mix_last_ts
           (snd (gst_videomixer_collected example_core GST_FLOW_OK GST_FLOW_OK example_late))"
    "mix_last_duration example_after_drop
       = mix_last_duration
           (snd (gst_videomixer_collected example_core GST_FLOW_OK GST_FLOW_OK example_late))"
    by code_simp+
  have t: "cycle_timestamp example_core example_late 0 = 0" by code_simp
  obtain m' where
    m': "mix_master example_after_drop = Some m'"
    and c: "case pad_buffer (mix_pads (snd (cycle_fill example_core example_after_drop)) m') of
              Some buffer \<Rightarrow>
                (100000000 :: GstClockTime)
                  = gst_segment_to_running_time example_core
                      (pad_segment
                         (mix_pads (snd (cycle_fill example_core example_after_drop)) m'))
                      GST_FORMAT_TIME (buf_timestamp buffer)
                \<and> (100000000 :: GstClockTime) = buf_duration buffer
            | None \<Rightarrow> 100000000 = mix_last_ts example_after_drop
                      \<and> 100000000 = mix_last_duration example_after_drop"
    and l: "mix_last_duration
              (snd (gst_videomixer_collected example_core GST_FLOW_OK GST_FLOW_OK
                      example_after_drop))
             = 100000000"
      "mix_last_ts
         (snd (gst_videomixer_collected example_core GST_FLOW_OK GST_FLOW_OK
                 example_after_drop))
        = (if GST_CLOCK_TIME_IS_VALID (100000000 :: GstClockTime)
           then 100000000 + 100000000 else 100000000)"
    and x: "\<And>prev alloc_ret0 push_ret0 m0.
                mix_in_width prev \<noteq> 0 \<and> \<not> fst (cycle_fill example_core prev)
                \<and> mix_master prev = Some m0
                \<and> mix_last_ts example_after_drop
                    = mix_last_ts
                        (snd (gst_videomixer_collected example_core alloc_ret0 push_ret0 prev))
                \<and> mix_last_duration example_after_drop
                    = mix_last_duration
                        (snd (gst_videomixer_collected example_core alloc_ret0 push_ret0 prev))
                \<and> pad_buffer (mix_pads (snd (cycle_fill example_core example_after_drop)) m')
                    = None
                \<Longrightarrow> (100000000 :: GstClockTime) = cycle_duration example_core prev m0
                    \<and> (100000000 :: GstClockTime)
                        = (if GST_CLOCK_TIME_IS_VALID (cycle_duration example_core prev m0)
                           then cycle_timestamp example_core prev m0
                                + cycle_duration example_core prev m0
                           else cycle_timestamp example_core prev m0)"
    using C3_output_times [OF k1 k2] by blast
  have m0: "m' = 0" using m' n by simp
  have r2: "mix_last_ts example_after_drop = 100000000
     \<and> mix_last_duration example_after_drop = 100000000"
    using c e unfolding m0 by simp
  have r3: "cycle_duration example_core example_late 0 = 100000000"
    using x [of example_late 0 GST_FLOW_OK GST_FLOW_OK] p s e unfolding m0 by simp
  have r4: "mix_last_ts
         (snd (gst_videomixer_collected example_core GST_FLOW_OK GST_FLOW_OK
                 example_after_drop))
        = 200000000"
    using l(2) v by simp
  show ?thesis
    using h1 h2 m nb b r1 k1 k2 n e p s r2 t r3 l(1) r4 by blast
qed

text \<open>
  The claim has the timestamp held during a master stall.  On the streaming sample mixer
  the first cycle emits a frame stamped 0 of 100 ms and uses up the master's frame; in the
  second cycle the master holds nothing, and the frame emitted is stamped 100 ms, not 0.
\<close>

theorem C3_stall_counterexample:
  "mix_master example_streaming = Some 0
   \<and> fst (gst_videomixer_collected example_core GST_FLOW_OK GST_FLOW_OK example_streaming)
       = Returned GST_FLOW_OK
   \<and> emitted example_streaming example_second_cycle
       = [EvNewSegment False 1 1 GST_FORMAT_TIME 0 (- 1) 0,
          SetCaps (Some \<lparr>caps_format = GST_VIDEO_FORMAT_AYUV, caps_width = 320,
                           caps_height = 240, caps_par_n = 1, caps_par_d = 1\<rparr>),
          PushBuffer 0 100000000 VIDEO_MIXER_BACKGROUND_CHECKER [0, 1]]
   \<and> mix_master example_second_cycle = Some 0
   \<and> pad_buffer (mix_pads (snd (cycle_fill example_core example_second_cycle)) 0) = None
   \<and> fst (gst_videomixer_collected example_core GST_FLOW_OK GST_FLOW_OK
             example_second_cycle)
       = Returned GST_FLOW_OK
   \<and> emitted example_second_cycle
        (collected_state example_core GST_FLOW_OK GST_FLOW_OK example_second_cycle)
       = [PushBuffer 100000000 100000000 VIDEO_MIXER_BACKGROUND_CHECKER [1]]"
  by code_simp

section \<open>C4: queue accounting\<close>

text \<open>
  C4, as the code has it.  With a master and a duplicate-free port list, queue accounting
  returns; its interval is the master's counter when that is positive, else
  \<open>GST_SECOND\<close> scaled by \<open>fps_d / fps_n\<close>, or \<open>G_MAXINT64\<close> when the output rate's
  numerator is 0.  The interval is subtracted (in 64-bit two's complement) from the
  counter of every port that holds a frame; such a port whose counter is then \<open>\<le> 0\<close>
  has its frame released and popped from the transport layer, the others keep theirs.
  A port that holds no frame is left as it is: its counter is not touched.
\<close>

theorem C4_queue_accounting:
  assumes "mix_master mix = Some master" and "distinct (mix_sinkpads mix)"
  shows "\<exists>mix'. gst_videomixer_update_queues mix = Some mix'
          \<and> update_queues_interval mix master
              = (if 0 <s pad_queued (mix_pads mix master) then pad_queued (mix_pads mix master)
                 else if mix_fps_n mix = 0 then G_MAXINT64
                 else gst_util_uint64_scale_int GST_SECOND (mix_fps_d mix) (mix_fps_n mix))
          \<and> (\<forall>pad\<in>set (mix_sinkpads mix).
                (pad_buffer (mix_pads mix pad) \<noteq> None \<longrightarrow>
                   pad_queued (mix_pads mix' pad)
                     = pad_queued (mix_pads mix pad) - update_queues_interval mix master
                   \<and> (pad_queued (mix_pads mix' pad) \<le>s 0 \<longrightarrow>
                        pad_buffer (mix_pads mix' pad) = None
                        \<and> pad_collect_buffer (mix_pads mix' pad) = None)
                   \<and> (\<not> pad_queued (mix_pads mix' pad) \<le>s 0 \<longrightarrow>
                        pad_buffer (mix_pads mix' pad) = pad_buffer (mix_pads mix pad)
                        \<and> pad_collect_buffer (mix_pads mix' pad)
                            = pad_collect_buffer (mix_pads mix pad)))
                \<and> (pad_buffer (mix_pads mix pad) = None \<longrightarrow>
                     mix_pads mix' pad = mix_pads mix pad))"
proof -
  define interval where "interval = update_queues_interval mix master"
  define mix' where "mix' = mix\<lparr>mix_pads :=
      update_queues_walk interval (mix_sinkpads mix) (mix_pads mix)\<rparr>"
  have u: "gst_videomixer_update_queues mix = Some mix'"
    using assms(1) by (simp add: gst_videomixer_update_queues_def mix'_def interval_def)
  have p: "mix_pads mix' pad = update_queues_pad interval (mix_pads mix pad)"
    if "pad \<in> set (mix_sinkpads mix)" for pad
    using that update_queues_walk_result [OF assms(2)] by (simp add: mix'_def)
  have "\<forall>pad\<in>set (mix_sinkpads mix).
                (pad_buffer (mix_pads mix pad) \<noteq> None \<longrightarrow>
                   pad_queued (mix_pads mix' pad) = pad_queued (mix_pads mix pad) - interval
                   \<and> (pad_queued (mix_pads mix' pad) \<le>s 0 \<longrightarrow>
                        pad_buffer (mix_pads mix' pad) = None
                        \<and> pad_collect_buffer (mix_pads mix' pad) = None)
                   \<and> (\<not> pad_queued (mix_pads mix' pad) \<le>s 0 \<longrightarrow>
                        pad_buffer (mix_pads mix' pad) = pad_buffer (mix_pads mix pad)
                        \<and> pad_collect_buffer (mix_pads mix' pad)
                            = pad_collect_buffer (mix_pads mix pad)))
                \<and> (pad_buffer (mix_pads mix pad) = None \<longrightarrow>
                     mix_pads mix' pad = mix_pads mix pad)"
  proof (intro ballI conjI impI)
    fix pad assume m: "pad \<in> set (mix_sinkpads mix)"
    { assume h: "pad_buffer (mix_pads mix pad) \<noteq> None"
      show q: "pad_queued (mix_pads mix' pad) = pad_queued (mix_pads mix pad) - interval"
        using update_queues_pad_held(1) [OF h] p [OF m] by simp
      { assume "pad_queued (mix_pads mix' pad) \<le>s 0"
        then have "pad_queued (mix_pads mix pad) - interval \<le>s 0" using q by simp
        then show "pad_buffer (mix_pads mix' pad) = None"
          and "pad_collect_buffer (mix_pads mix' pad) = None"
          using update_queues_pad_held(2) [OF h] p [OF m] by simp_all }
      { assume "\<not> pad_queued (mix_pads mix' pad) \<le>s 0"
        then have "\<not> pad_queued (mix_pads mix pad) - interval \<le>s 0" using q by simp
        then show "pad_buffer (mix_pads mix' pad) = pad_buffer (mix_pads mix pad)"
          and "pad_collect_buffer (mix_pads mix' pad) = pad_collect_buffer (mix_pads mix pad)"
          using update_queues_pad_held(3) [OF h] p [OF m] by simp_all } }
    { assume "pad_buffer (mix_pads mix pad) = None"
      then show "mix_pads mix' pad = mix_pads mix pad"
        using update_queues_pad_empty p [OF m] by simp }
  qed
  then show ?thesis
    using u update_queues_interval_eq [of mix master] unfolding interval_def by blast
qed

theorem C4_queue_accounting_witness:
  "mix_master example_holding = Some 0 \<and> distinct (mix_sinkpads example_holding)
   \<and> mix_sinkpads example_holding = [0, 1]
   \<and> pad_buffer (mix_pads example_holding 0) \<noteq> None
   \<and> pad_buffer (mix_pads example_holding 1) \<noteq> None
   \<and> update_queues_interval example_holding 0 = 100000000
   \<and> (\<exists>mix'. gst_videomixer_update_queues example_holding = Some mix'
         \<and> pad_queued (mix_pads mix' 0) = 0
         \<and> pad_buffer (mix_pads mix' 0) = None
         \<and> pad_collect_buffer (mix_pads mix' 0) = None
         \<and> pad_queued (mix_pads mix' 1) = 100000000
         \<and> pad_buffer (mix_pads mix' 1) = Some (example_frame 0 200000000))
   \<and> mix_master example_stalled = Some 0 \<and> distinct (mix_sinkpads example_stalled)
   \<and> mix_sinkpads example_stalled = [0, 1]
   \<and> pad_buffer (mix_pads example_stalled 0) = None
   \<and> (\<exists>mix'. gst_videomixer_update_queues example_stalled = Some mix'
         \<and> mix_pads mix' 0 = mix_pads example_stalled 0)"
proof -
  have m: "mix_master example_holding = Some 0" by code_simp
  have l: "mix_sinkpads example_holding = [0, 1]" by code_simp
  have d: "distinct (mix_sinkpads example_holding)" unfolding l by simp
  have b: "pad_buffer (mix_pads example_holding 0) \<noteq> None"
    "pad_buffer (mix_pads example_holding 1) = Some (example_frame 0 200000000)"
    by code_simp+
  have q: "pad_queued (mix_pads example_holding 0) = 100000000"
    "pad_queued (mix_pads example_holding 1) = 200000000"
    by code_simp+
  have s: "(0 :: gint64) <s 100000000" "(0 :: gint64) \<le>s 0" "\<not> (100000000 :: gint64) \<le>s 0"
    by (simp_all add: word_sless_alt word_sle_eq)
  obtain mix' where u: "gst_videomixer_update_queues example_holding = Some mix'"
    and i: "update_queues_interval example_holding 0 = 100000000"
    and p: "\<forall>pad\<in>set [0, 1].
                (pad_buffer (mix_pads example_holding pad) \<noteq> None \<longrightarrow>
                   pad_queued (mix_pads mix' pad)
                     = pad_queued (mix_pads example_holding pad)
                       - update_queues_interval example_holding 0
                   \<and> (pad_queued (mix_pads mix' pad) \<le>s 0 \<longrightarrow>
                        pad_buffer (mix_pads mix' pad) = None
                        \<and> pad_collect_buffer (mix_pads mix' pad) = None)
                   \<and> (\<not> pad_queued (mix_pads mix' pad) \<le>s 0 \<longrightarrow>
                        pad_buffer (mix_pads mix' pad) = pad_buffer (mix_pads example_holding pad)
                        \<and> pad_collect_buffer (mix_pads mix' pad)
                            = pad_collect_buffer (mix_pads example_holding pad)))
                \<and> (pad_buffer (mix_pads example_holding pad) = None \<longrightarrow>
                     mix_pads mix' pad = mix_pads example_holding pad)"
    using C4_queue_accounting [OF m d] s(1) unfolding l q by auto
  have r0: "pad_queued (mix_pads mix' 0) = 0 \<and> pad_buffer (mix_pads mix' 0) = None
      \<and> pad_collect_buffer (mix_pads mix' 0) = None"
    using p b(1) s(2) i q by simp
  have r1: "pad_queued (mix_pads mix' 1) = 100000000
      \<and> pad_buffer (mix_pads mix' 1) = Some (example_frame 0 200000000)"
    using p b(2) s(3) i q by simp
  have m2: "mix_master example_stalled = Some 0" by code_simp
  have l2: "mix_sinkpads example_stalled = [0, 1]" by code_simp
  have d2: "distinct (mix_sinkpads example_stalled)" unfolding l2 by simp
  have b2: "pad_buffer (mix_pads example_stalled 0) = None" by code_simp
  have "\<exists>mix'. gst_videomixer_update_queues example_stalled = Some mix'
         \<and> mix_pads mix' 0 = mix_pads example_stalled 0"
    using C4_queue_accounting [OF m2 d2] b2 unfolding l2 by auto
  then show ?thesis
    using m l d b i u r0 r1 m2 l2 d2 b2 by auto
qed

text \<open>
  The claim subtracts the interval from every port's counter.  In the second cycle of the
  sample mixer the master holds no frame and its counter is 0; the interval is 100 ms, and
  after queue accounting the master's counter is still 0, not 0 - 100 ms.
\<close>

theorem C4_idle_port_counterexample:
  "mix_master example_stalled = Some 0
   \<and> mix_sinkpads example_stalled = [0, 1]
   \<and> pad_buffer (mix_pads example_stalled 0) = None
   \<and> pad_queued (mix_pads example_stalled 0) = 0
   \<and> update_queues_interval example_stalled 0 = 100000000
   \<and> gst_videomixer_update_queues example_stalled \<noteq> None
   \<and> pad_queued (mix_pads (update_queues_state example_stalled) 0) = 0
   \<and> (0 :: gint64) - 100000000 \<noteq> 0"
  by code_simp

section \<open>C9: reset on stop\<close>

lemma collect_free_walk_result:
  "collect_free_walk ids pads i
     = (if i \<in> set ids then gst_videomixer_collect_free (pads i) else pads i)"
proof (induction ids arbitrary: pads)
  case Nil
  then show ?case by simp
next
  case (Cons w ids)
  have idem: "gst_videomixer_collect_free (gst_videomixer_collect_free p)
              = gst_videomixer_collect_free p" for p
    by (simp add: gst_videomixer_collect_free_def)
  show ?case by (simp add: Cons.IH idem)
qed

lemma collect_free_fields:
  "pad_buffer (gst_videomixer_collect_free p) = None"
  "pad_queued (gst_videomixer_collect_free p) = pad_queued p"
  by (simp_all add: gst_videomixer_collect_free_def)

text \<open>What the reset does reach, and what it leaves.\<close>

lemma reset_mixer_fields:
  fixes mix :: GstVideoMixer and core :: gst_core
  defines "mix' \<equiv> gst_videomixer_reset core mix"
  shows "mix_in_width mix' = 0" "mix_in_height mix' = 0" "mix_out_width mix' = 0"
    "mix_out_height mix' = 0" "mix_fps_n mix' = 0" "mix_fps_d mix' = 0" "mix_par_n mix' = 1"
    "mix_par_d mix' = 1" "mix_setcaps mix' = False" "mix_sendseg mix' = False"
    "mix_segment_position mix' = 0"
    "mix_segment mix' = gst_segment_init core (mix_segment mix) GST_FORMAT_TIME"
    "mix_proportion mix' = 0.5" "mix_earliest_time mix' = GST_CLOCK_TIME_NONE"
    "mix_fmt mix' = GST_VIDEO_FORMAT_UNKNOWN" "mix_last_ts mix' = 0"
    "mix_last_duration mix' = - 1" "mix_next_sinkpad mix' = 0"
    "mix_flush_stop_pending mix' = False" "mix_tmp_buf mix' = None"
    "mix_method mix' = GST_VIDEO_SCALE_BILINEAR"
  unfolding mix'_def gst_videomixer_reset_def gst_videomixer_reset_qos_def
    gst_videomixer_update_qos_def DEFAULT_PROP_METHOD_def
  by (simp_all add: Let_def)

lemma reset_ports:
  fixes mix :: GstVideoMixer and core :: gst_core
  defines "mix' \<equiv> gst_videomixer_reset core mix"
  shows "pad \<in> set (mix_collect_data mix) \<Longrightarrow> pad_buffer (mix_pads mix' pad) = None"
    and "pad_queued (mix_pads mix' pad) = pad_queued (mix_pads mix pad)"
  unfolding mix'_def gst_videomixer_reset_def gst_videomixer_reset_qos_def
    gst_videomixer_update_qos_def
  by (simp_all add: Let_def collect_free_walk_result collect_free_fields)

text \<open>
  C9 says that the reset on stop releases every port's held frame and zeroes every port's
  queued-duration counter.  The code releases the frames and restores the mixer-wide
  fields (the two lemmas above), but it never writes a port's counter.  The sample mixer
  after one cycle: port 1 holds a frame and has 100 ms queued; after the change from
  paused to ready the frame is gone and the counter is still 100 ms, where a fresh port
  has 0.  The flush-stop handler, which also resets a port, clears both.
\<close>

theorem C9_reset_keeps_counter:
  "pad_buffer (mix_pads example_second_cycle 1) = Some (example_frame 0 200000000)
   \<and> pad_queued (mix_pads example_second_cycle 1) = 100000000
   \<and> pad_buffer
        (mix_pads (gst_videomixer_change_state example_core example_second_cycle
                     GST_STATE_CHANGE_PAUSED_TO_READY) 1) = None
   \<and> pad_queued
        (mix_pads (gst_videomixer_change_state example_core example_second_cycle
                     GST_STATE_CHANGE_PAUSED_TO_READY) 1) = 100000000
   \<and> pad_queued (mix_pads (gst_videomixer_init example_core) 1) = 0
   \<and> pad_buffer
        (mix_pads (gst_videomixer_sink_event example_second_cycle 1 GST_EVENT_FLUSH_STOP) 1)
       = None
   \<and> pad_queued
        (mix_pads (gst_videomixer_sink_event example_second_cycle 1 GST_EVENT_FLUSH_STOP) 1)
       = 0"
  by code_simp

end
